theory Spec2Isabelle
  imports Complex_Main "HOL-Library.Log_Nat"
begin

section \<open>JavaScript numbers\<close>

text \<open>
  The server computes with JavaScript numbers. A number is modelled as a real or one of
  the three special values that the arithmetic of the server can produce. The operations
  below are exact; the raster sampler, whose result depends on how a quotient is rounded,
  rounds each of its results to a double (see the next section). Dividing by zero gives
  an infinity, and zero times an infinity (or zero divided by zero) gives NaN, which
  every later operation propagates and every comparison rejects. The two zeros of the
  binary format are identified; a division of a nonzero number by zero takes the sign
  of the numerator.
\<close>

datatype jsnum = Fin real | PInf | NInf | NaN

fun jneg :: "jsnum \<Rightarrow> jsnum" where
  "jneg (Fin a) = Fin (- a)"
| "jneg PInf = NInf"
| "jneg NInf = PInf"
| "jneg NaN = NaN"

fun jadd :: "jsnum \<Rightarrow> jsnum \<Rightarrow> jsnum" where
  "jadd (Fin a) (Fin b) = Fin (a + b)"
| "jadd (Fin a) PInf = PInf"
| "jadd (Fin a) NInf = NInf"
| "jadd PInf (Fin b) = PInf"
| "jadd PInf PInf = PInf"
| "jadd NInf (Fin b) = NInf"
| "jadd NInf NInf = NInf"
| "jadd _ _ = NaN"

definition jsub :: "jsnum \<Rightarrow> jsnum \<Rightarrow> jsnum" where
  "jsub a b = jadd a (jneg b)"

text \<open>The sign of an infinity multiplied or divided by a finite number.\<close>

definition signed_inf :: "bool \<Rightarrow> jsnum" where
  "signed_inf positive = (if positive then PInf else NInf)"

fun jmul :: "jsnum \<Rightarrow> jsnum \<Rightarrow> jsnum" where
  "jmul (Fin a) (Fin b) = Fin (a * b)"
| "jmul (Fin a) PInf = (if a = 0 then NaN else signed_inf (0 < a))"
| "jmul (Fin a) NInf = (if a = 0 then NaN else signed_inf (a < 0))"
| "jmul PInf (Fin b) = (if b = 0 then NaN else signed_inf (0 < b))"
| "jmul NInf (Fin b) = (if b = 0 then NaN else signed_inf (b < 0))"
| "jmul PInf PInf = PInf"
| "jmul PInf NInf = NInf"
| "jmul NInf PInf = NInf"
| "jmul NInf NInf = PInf"
| "jmul _ _ = NaN"

fun jdiv :: "jsnum \<Rightarrow> jsnum \<Rightarrow> jsnum" where
  "jdiv (Fin a) (Fin b) =
     (if b = 0 then (if a = 0 then NaN else signed_inf (0 < a)) else Fin (a / b))"
| "jdiv (Fin a) PInf = Fin 0"
| "jdiv (Fin a) NInf = Fin 0"
| "jdiv PInf (Fin b) = signed_inf (0 \<le> b)"
| "jdiv NInf (Fin b) = signed_inf (b < 0)"
| "jdiv _ _ = NaN"

text \<open>Comparisons: every comparison with NaN is false.\<close>

fun jlt :: "jsnum \<Rightarrow> jsnum \<Rightarrow> bool" where
  "jlt (Fin a) (Fin b) = (a < b)"
| "jlt (Fin a) PInf = True"
| "jlt NInf (Fin b) = True"
| "jlt NInf PInf = True"
| "jlt _ _ = False"

fun jle :: "jsnum \<Rightarrow> jsnum \<Rightarrow> bool" where
  "jle (Fin a) (Fin b) = (a \<le> b)"
| "jle (Fin a) PInf = True"
| "jle NInf (Fin b) = True"
| "jle NInf PInf = True"
| "jle PInf PInf = True"
| "jle NInf NInf = True"
| "jle _ _ = False"

definition jgt :: "jsnum \<Rightarrow> jsnum \<Rightarrow> bool" where
  "jgt a b = jlt b a"

definition jge :: "jsnum \<Rightarrow> jsnum \<Rightarrow> bool" where
  "jge a b = jle b a"

text \<open>\<^verbatim>\<open>Math.max\<close> and \<^verbatim>\<open>Math.min\<close> of two numbers: NaN when either is NaN.\<close>

definition jmax :: "jsnum \<Rightarrow> jsnum \<Rightarrow> jsnum" where
  "jmax a b = (if a = NaN \<or> b = NaN then NaN else if jlt a b then b else a)"

definition jmin :: "jsnum \<Rightarrow> jsnum \<Rightarrow> jsnum" where
  "jmin a b = (if a = NaN \<or> b = NaN then NaN else if jlt b a then b else a)"

text \<open>\<^verbatim>\<open>Math.floor\<close>, and \<^verbatim>\<open>Math.round\<close>, which rounds a half upwards.\<close>

fun jfloor :: "jsnum \<Rightarrow> jsnum" where
  "jfloor (Fin a) = Fin (of_int \<lfloor>a\<rfloor>)"
| "jfloor x = x"

fun jround :: "jsnum \<Rightarrow> jsnum" where
  "jround (Fin a) = Fin (of_int \<lfloor>a + 1 / 2\<rfloor>)"
| "jround x = x"

fun jexp :: "jsnum \<Rightarrow> jsnum" where
  "jexp (Fin a) = Fin (exp a)"
| "jexp PInf = PInf"
| "jexp NInf = Fin 0"
| "jexp NaN = NaN"

text \<open>A number is falsy when it is zero or NaN; \<^verbatim>\<open>a || b\<close> on numbers.\<close>

definition truthy :: "jsnum \<Rightarrow> bool" where
  "truthy a = (a \<noteq> Fin 0 \<and> a \<noteq> NaN)"

definition jor :: "jsnum \<Rightarrow> jsnum \<Rightarrow> jsnum" where
  "jor a b = (if truthy a then a else b)"

text \<open>
  \<^verbatim>\<open>Math.round(x * 10) / 10\<close>, the rounding to one decimal place that the server
  applies to every mass it returns.
\<close>

definition round1 :: "jsnum \<Rightarrow> jsnum" where
  "round1 x = jdiv (jround (jmul x (Fin 10))) (Fin 10)"

section \<open>Rounding to a double\<close>

text \<open>
  The sampler floors a quotient, so there the rounding of the binary format decides
  which pixel is read. \<open>to_binary64\<close> rounds a real to the nearest double (binary64: 53
  significant bits, exponents of the last place from -1074 to 971, ties to the even
  significand, and an infinity from \<open>2\<^sup>1\<^sup>0\<^sup>2\<^sup>4\<close> on); \<open>rounded\<close> applies it to the result of
  one arithmetic operation.
\<close>

definition pow2 :: "int \<Rightarrow> real" where
  "pow2 k = (if 0 \<le> k then 2 ^ nat k else 1 / 2 ^ nat (- k))"

text \<open>The exponent \<open>e\<close> with \<open>2\<^sup>e \<le> |x| < 2\<^sup>e\<^sup>+\<^sup>1\<close>, for \<open>x\<close> other than zero.\<close>

definition binade :: "real \<Rightarrow> int" where
  "binade x = (if 1 \<le> \<bar>x\<bar> then bitlen \<lfloor>\<bar>x\<bar>\<rfloor> - 1 else - bitlen (\<lceil>1 / \<bar>x\<bar>\<rceil> - 1))"

definition round_even :: "real \<Rightarrow> int" where
  "round_even y =
     (let f = \<lfloor>y\<rfloor>
      in if y - of_int f < 1 / 2 then f
         else if 1 / 2 < y - of_int f then f + 1
         else if even f then f else f + 1)"

definition to_binary64 :: "real \<Rightarrow> jsnum" where
  "to_binary64 x =
     (if x = 0 then Fin 0
      else
        let q = max (- 1074) (binade x - 52);
            r = of_int (round_even (x / pow2 q)) * pow2 q
        in if pow2 1024 \<le> \<bar>r\<bar> then signed_inf (0 < r) else Fin r)"

fun rounded :: "jsnum \<Rightarrow> jsnum" where
  "rounded (Fin a) = to_binary64 a"
| "rounded v = v"

section \<open>Raster layers and the sampler\<close>

text \<open>
  One cached GeoTIFF layer, as \<^verbatim>\<open>loadGeoTIFFs\<close> stores it: the first band as a flat
  row-major array, the pixel counts, the bounding box and the cell size computed from
  them, each result rounded as the double arithmetic of the loader rounds it.
\<close>

record raster_layer =
  data :: "jsnum list"
  width :: nat
  height :: nat
  minX :: real
  maxY :: real
  maxX :: real
  minY :: real
  cellWidth :: jsnum
  cellHeight :: jsnum

text \<open>
  The entry \<^verbatim>\<open>loadGeoTIFFs\<close> builds from the band, the pixel counts and the bounding
  box \<^verbatim>\<open>[minX, minY, maxX, maxY]\<close> of an image.
\<close>

definition loadLayer :: "jsnum list \<Rightarrow> nat \<Rightarrow> nat \<Rightarrow> real \<times> real \<times> real \<times> real \<Rightarrow> raster_layer" where
  "loadLayer rasters0 w h bbox =
     (case bbox of (b0, b1, b2, b3) \<Rightarrow>
        \<lparr> data = rasters0, width = w, height = h,
          minX = b0, maxY = b3, maxX = b2, minY = b1,
          cellWidth = rounded (jdiv (rounded (jsub (Fin b2) (Fin b0))) (Fin (real w))),
          cellHeight = rounded (jdiv (rounded (jsub (Fin b3) (Fin b1))) (Fin (real h))) \<rparr>)"

text \<open>
  Reading \<^verbatim>\<open>xs[i]\<close>: an index that is not an integer inside the array reads
  \<^verbatim>\<open>undefined\<close> (here \<open>None\<close>).
\<close>

definition js_index :: "'a list \<Rightarrow> jsnum \<Rightarrow> 'a option" where
  "js_index xs i =
     (case i of
        Fin r \<Rightarrow> (if 0 \<le> r \<and> r = of_int \<lfloor>r\<rfloor> \<and> nat \<lfloor>r\<rfloor> < length xs
                  then Some (xs ! nat \<lfloor>r\<rfloor>) else None)
      | _ \<Rightarrow> None)"

text \<open>What the sampler returns: \<^verbatim>\<open>null\<close>, \<^verbatim>\<open>undefined\<close> or a number.\<close>

datatype pixel = PNull | PUndefined | PValue jsnum

text \<open>The NODATA test of the sampler on a stored number.\<close>

definition isNoData :: "jsnum \<Rightarrow> bool" where
  "isNoData v = (jlt v (Fin (- 9999)) \<or> jgt v (Fin 100000) \<or> v = Fin (- 9999) \<or> v = Fin (- 32768))"

text \<open>
  \<^verbatim>\<open>extractValueFromGeoTIFF(lon, lat, layer)\<close>; the cache entry of the layer is passed
  in, \<open>None\<close> when the layer was not loaded. The subtractions, the divisions and the
  index arithmetic are those of the source, each rounded to a double; the comparisons
  and \<^verbatim>\<open>Math.floor\<close> are exact.
\<close>

definition extractValueFromGeoTIFF :: "jsnum \<Rightarrow> jsnum \<Rightarrow> raster_layer option \<Rightarrow> pixel" where
  "extractValueFromGeoTIFF lon lat layer =
     (case layer of
        None \<Rightarrow> PNull
      | Some cache \<Rightarrow>
          if jlt lon (Fin (minX cache)) \<or> jgt lon (Fin (maxX cache)) \<or>
             jlt lat (Fin (minY cache)) \<or> jgt lat (Fin (maxY cache))
          then PNull
          else
            let col = jfloor (rounded (jdiv (rounded (jsub lon (Fin (minX cache)))) (cellWidth cache)));
                row = jfloor (rounded (jdiv (rounded (jsub (Fin (maxY cache)) lat)) (cellHeight cache)))
            in if jlt col (Fin 0) \<or> jge col (Fin (real (width cache))) \<or>
                  jlt row (Fin 0) \<or> jge row (Fin (real (height cache)))
               then PNull
               else
                 let idx = rounded (jadd (rounded (jmul row (Fin (real (width cache))))) col)
                 in (case js_index (data cache) idx of
                       None \<Rightarrow> PUndefined
                     | Some v \<Rightarrow> if isNoData v then PNull else PValue v))"

section \<open>Nutrient levels and the soil record\<close>

datatype nutrient_type = AN | AP | AK

text \<open>
  The level labels of \<^verbatim>\<open>getNutrientLevel\<close> (low, medium, high, very high), the label
  of a record not yet classified, and the label of the built-in default record.
\<close>

datatype nutrient_level = Low | Medium | High | VeryHigh | UnknownLevel | DefaultLevel

fun ranges :: "nutrient_type \<Rightarrow> real \<times> real \<times> real" where
  "ranges AN = (50, 90, 120)"
| "ranges AP = (5, 10, 20)"
| "ranges AK = (50, 100, 150)"

definition getNutrientLevel :: "jsnum \<Rightarrow> nutrient_type \<Rightarrow> nutrient_level" where
  "getNutrientLevel v t =
     (case ranges t of (lo, mid, hi) \<Rightarrow>
        if jlt v (Fin lo) then Low
        else if jlt v (Fin mid) then Medium
        else if jlt v (Fin hi) then High
        else VeryHigh)"

text \<open>
  The provenance tags written into \<^verbatim>\<open>data_source\<close>: simulated data, the GeoTIFF
  raster, manual input and the built-in default.
\<close>

datatype data_source = Simulated | GeoTIFF | Manual | DefaultSource

record levels3 =
  level_AN :: nutrient_level
  level_AP :: nutrient_level
  level_AK :: nutrient_level

record sources3 =
  source_AN :: data_source
  source_AP :: data_source
  source_AK :: data_source

text \<open>
  The soil record. A content is \<open>None\<close> while it is still \<^verbatim>\<open>null\<close> in
  \<^verbatim>\<open>baseData\<close>.
\<close>

record soil_data =
  soil_N :: "jsnum option"
  soil_P :: "jsnum option"
  soil_K :: "jsnum option"
  nutrient_levels :: levels3
  data_source :: sources3
  is_default :: bool
  use_custom :: bool

text \<open>The number a nullable number stands for in arithmetic: \<^verbatim>\<open>null\<close> counts as zero.\<close>

definition num_of :: "jsnum option \<Rightarrow> jsnum" where
  "num_of v = (case v of None \<Rightarrow> Fin 0 | Some x \<Rightarrow> x)"

text \<open>The number a sampled pixel stands for: \<^verbatim>\<open>undefined\<close> counts as NaN.\<close>

fun pixel_num :: "pixel \<Rightarrow> jsnum" where
  "pixel_num (PValue v) = v"
| "pixel_num PUndefined = NaN"
| "pixel_num PNull = Fin 0"

text \<open>The three cached layers, each \<open>None\<close> when its file was not loaded.\<close>

record geotiff_cache =
  cache_AN :: "raster_layer option"
  cache_AP :: "raster_layer option"
  cache_AK :: "raster_layer option"

record geotiff_entry =
  entry_value :: jsnum
  raw_value :: jsnum
  entry_level :: nutrient_level

record geotiff_soil =
  geo_AN :: "geotiff_entry option"
  geo_AP :: "geotiff_entry option"
  geo_AK :: "geotiff_entry option"
  has_valid_data :: bool

text \<open>
  \<^verbatim>\<open>getSoilNutrientsFromGeoTIFF(lon, lat)\<close>: the stored numbers are decoded with the
  scale of their layer (10 for AN and AK, 100 for AP).
\<close>

definition geotiffEntry :: "pixel \<Rightarrow> real \<Rightarrow> nutrient_type \<Rightarrow> geotiff_entry option" where
  "geotiffEntry px scale t =
     (if px \<noteq> PNull
      then Some \<lparr> entry_value = jdiv (jround (pixel_num px)) (Fin scale),
                  raw_value = pixel_num px,
                  entry_level = getNutrientLevel (jdiv (pixel_num px) (Fin scale)) t \<rparr>
      else None)"

definition getSoilNutrientsFromGeoTIFF :: "geotiff_cache \<Rightarrow> jsnum \<Rightarrow> jsnum \<Rightarrow> geotiff_soil" where
  "getSoilNutrientsFromGeoTIFF cache lon lat =
     (let pAN = extractValueFromGeoTIFF lon lat (cache_AN cache);
          pAP = extractValueFromGeoTIFF lon lat (cache_AP cache);
          pAK = extractValueFromGeoTIFF lon lat (cache_AK cache);
          hasValidData = (pAN \<noteq> PNull \<or> pAP \<noteq> PNull \<or> pAK \<noteq> PNull)
      in \<lparr> geo_AN = geotiffEntry pAN 10 AN,
           geo_AP = geotiffEntry pAP 100 AP,
           geo_AK = geotiffEntry pAK 10 AK,
           has_valid_data = hasValidData \<rparr>)"

text \<open>
  \<^verbatim>\<open>getSimulatedSoilNutrients(lon, lat)\<close>. The function calls \<^verbatim>\<open>Math.random()\<close>
  three times; the three draws, each a number in \<open>[0, 1)\<close>, are the argument \<open>rnd\<close>,
  in the order of the calls.
\<close>

definition rand :: "real \<Rightarrow> real \<Rightarrow> real \<Rightarrow> jsnum" where
  "rand draw lo hi = Fin (draw * (hi - lo) + lo)"

definition clampTo :: "real \<Rightarrow> real \<Rightarrow> jsnum \<Rightarrow> jsnum" where
  "clampTo lo hi x = jmax (Fin lo) (jmin (Fin hi) x)"

definition simulatedBase :: "real \<Rightarrow> real \<Rightarrow> real \<Rightarrow> jsnum \<Rightarrow> jsnum \<Rightarrow> jsnum" where
  "simulatedBase c0 cLon cLat lon lat =
     jadd (jadd (Fin c0) (jmul (jsub lon (Fin 114)) (Fin cLon))) (jmul (jsub lat (Fin 30)) (Fin cLat))"

definition getSimulatedSoilNutrients :: "real \<times> real \<times> real \<Rightarrow> jsnum \<Rightarrow> jsnum \<Rightarrow> soil_data" where
  "getSimulatedSoilNutrients rnd lon lat =
     (case rnd of (r1, r2, r3) \<Rightarrow>
        let baseAN = simulatedBase (892 / 10) 2 3 lon lat;
            baseAP = simulatedBase (238 / 10) (1 / 2) (8 / 10) lon lat;
            baseAK = simulatedBase 105 (3 / 2) 2 lon lat;
            vAN = clampTo 50 150 (jadd baseAN (rand r1 (- 10) 10));
            vAP = clampTo 5 40 (jadd baseAP (rand r2 (- 5) 5));
            vAK = clampTo 60 200 (jadd baseAK (rand r3 (- 20) 20))
        in \<lparr> soil_N = Some (round1 vAN),
             soil_P = Some (round1 vAP),
             soil_K = Some (round1 vAK),
             nutrient_levels = \<lparr> level_AN = getNutrientLevel vAN AN,
                                 level_AP = getNutrientLevel vAP AP,
                                 level_AK = getNutrientLevel vAK AK \<rparr>,
             data_source = \<lparr> source_AN = Simulated, source_AP = Simulated, source_AK = Simulated \<rparr>,
             is_default = True,
             use_custom = False \<rparr>)"

text \<open>The optional manual soil contents of a request (\<^verbatim>\<open>custom_soil_data\<close>).\<close>

record custom_soil =
  custom_N :: "jsnum option"
  custom_P :: "jsnum option"
  custom_K :: "jsnum option"

text \<open>
  \<^verbatim>\<open>getSoilNutrientsWithCustom(lon, lat, customSoilData)\<close>, in its four steps: the
  initial record, the raster values, the simulated values for what is still
  \<^verbatim>\<open>null\<close>, and the manual values on top.
\<close>

definition initialBaseData :: soil_data where
  "initialBaseData =
     \<lparr> soil_N = None, soil_P = None, soil_K = None,
       nutrient_levels = \<lparr> level_AN = UnknownLevel, level_AP = UnknownLevel, level_AK = UnknownLevel \<rparr>,
       data_source = \<lparr> source_AN = Simulated, source_AP = Simulated, source_AK = Simulated \<rparr>,
       is_default = True,
       use_custom = False \<rparr>"

definition applyGeoTIFF :: "geotiff_soil \<Rightarrow> soil_data \<Rightarrow> soil_data" where
  "applyGeoTIFF g b0 =
     (if has_valid_data g then
        let b1 = (case geo_AN g of
                    None \<Rightarrow> b0
                  | Some e \<Rightarrow> b0\<lparr> soil_N := Some (entry_value e),
                                  nutrient_levels := (nutrient_levels b0)\<lparr> level_AN := entry_level e \<rparr>,
                                  data_source := (data_source b0)\<lparr> source_AN := GeoTIFF \<rparr>,
                                  is_default := False \<rparr>);
            b2 = (case geo_AP g of
                    None \<Rightarrow> b1
                  | Some e \<Rightarrow> b1\<lparr> soil_P := Some (entry_value e),
                                  nutrient_levels := (nutrient_levels b1)\<lparr> level_AP := entry_level e \<rparr>,
                                  data_source := (data_source b1)\<lparr> source_AP := GeoTIFF \<rparr>,
                                  is_default := False \<rparr>)
        in (case geo_AK g of
              None \<Rightarrow> b2
            | Some e \<Rightarrow> b2\<lparr> soil_K := Some (entry_value e),
                            nutrient_levels := (nutrient_levels b2)\<lparr> level_AK := entry_level e \<rparr>,
                            data_source := (data_source b2)\<lparr> source_AK := GeoTIFF \<rparr>,
                            is_default := False \<rparr>)
      else b0)"

definition applySimulated :: "soil_data \<Rightarrow> soil_data \<Rightarrow> soil_data" where
  "applySimulated simulated b0 =
     (let b1 = (if soil_N b0 = None
                then b0\<lparr> soil_N := soil_N simulated,
                         nutrient_levels := (nutrient_levels b0)\<lparr> level_AN := level_AN (nutrient_levels simulated) \<rparr>,
                         data_source := (data_source b0)\<lparr> source_AN := Simulated \<rparr> \<rparr>
                else b0);
          b2 = (if soil_P b1 = None
                then b1\<lparr> soil_P := soil_P simulated,
                         nutrient_levels := (nutrient_levels b1)\<lparr> level_AP := level_AP (nutrient_levels simulated) \<rparr>,
                         data_source := (data_source b1)\<lparr> source_AP := Simulated \<rparr> \<rparr>
                else b1)
      in (if soil_K b2 = None
          then b2\<lparr> soil_K := soil_K simulated,
                   nutrient_levels := (nutrient_levels b2)\<lparr> level_AK := level_AK (nutrient_levels simulated) \<rparr>,
                   data_source := (data_source b2)\<lparr> source_AK := Simulated \<rparr> \<rparr>
          else b2))"

definition applyCustom :: "custom_soil option \<Rightarrow> soil_data \<Rightarrow> soil_data" where
  "applyCustom customSoilData b0 =
     (case customSoilData of
        None \<Rightarrow> b0
      | Some c \<Rightarrow>
          let b1 = (case custom_N c of
                      None \<Rightarrow> b0
                    | Some v \<Rightarrow> b0\<lparr> soil_N := Some v,
                                    data_source := (data_source b0)\<lparr> source_AN := Manual \<rparr>,
                                    nutrient_levels := (nutrient_levels b0)\<lparr> level_AN := getNutrientLevel v AN \<rparr> \<rparr>);
              b2 = (case custom_P c of
                      None \<Rightarrow> b1
                    | Some v \<Rightarrow> b1\<lparr> soil_P := Some v,
                                    data_source := (data_source b1)\<lparr> source_AP := Manual \<rparr>,
                                    nutrient_levels := (nutrient_levels b1)\<lparr> level_AP := getNutrientLevel v AP \<rparr> \<rparr>);
              b3 = (case custom_K c of
                      None \<Rightarrow> b2
                    | Some v \<Rightarrow> b2\<lparr> soil_K := Some v,
                                    data_source := (data_source b2)\<lparr> source_AK := Manual \<rparr>,
                                    nutrient_levels := (nutrient_levels b2)\<lparr> level_AK := getNutrientLevel v AK \<rparr> \<rparr>);
              useCustom = (custom_N c \<noteq> None \<or> custom_P c \<noteq> None \<or> custom_K c \<noteq> None)
          in b3\<lparr> use_custom := useCustom \<rparr>)"

definition getSoilNutrientsWithCustom ::
  "geotiff_cache \<Rightarrow> real \<times> real \<times> real \<Rightarrow> jsnum \<Rightarrow> jsnum \<Rightarrow> custom_soil option \<Rightarrow> soil_data" where
  "getSoilNutrientsWithCustom cache rnd lon lat customSoilData =
     (let geoTiffData = getSoilNutrientsFromGeoTIFF cache lon lat;
          simulated = getSimulatedSoilNutrients rnd lon lat
      in applyCustom customSoilData (applySimulated simulated (applyGeoTIFF geoTiffData initialBaseData)))"

section \<open>Point features\<close>

text \<open>
  The crop label of a GeoJSON feature: the label of rice, the label of winter wheat, or
  any other text.
\<close>

datatype crop_label = RiceLabel | WinterWheatLabel | OtherLabel

datatype crop = Rice | Wheat

text \<open>The table \<^verbatim>\<open>cropMap\<close> from the internal crop name to the label of the features.\<close>

fun cropMap :: "crop \<Rightarrow> crop_label" where
  "cropMap Rice = RiceLabel"
| "cropMap Wheat = WinterWheatLabel"

record fertilizer_feature =
  fert_coords :: "real \<times> real"
  fert_crop :: crop_label
  eff_N :: "jsnum option"
  eff_P :: "jsnum option"
  eff_K :: "jsnum option"

record farming_feature =
  farm_coords :: "real \<times> real"
  farm_crop :: crop_label
  sowing_date_start :: "string option"
  sowing_date_end :: "string option"

definition sqdist :: "real \<times> real \<Rightarrow> jsnum \<times> jsnum \<Rightarrow> jsnum" where
  "sqdist a b =
     (let dx = jsub (Fin (fst a)) (fst b); dy = jsub (Fin (snd a)) (snd b)
      in jadd (jmul dx dx) (jmul dy dy))"

text \<open>
  \<^verbatim>\<open>candidates.reduce((best, f) => d(f) < d(best) ? f : best)\<close> on a non-empty array:
  the first element starts as the best, a later one replaces it only when strictly
  nearer.
\<close>

definition nearest :: "('a \<Rightarrow> jsnum) \<Rightarrow> 'a \<Rightarrow> 'a list \<Rightarrow> 'a" where
  "nearest d first others = foldl (\<lambda>best f. if jlt (d f) (d best) then f else best) first others"

definition getFertilizerEfficiency ::
  "fertilizer_feature list \<Rightarrow> jsnum \<Rightarrow> jsnum \<Rightarrow> crop \<Rightarrow> jsnum option \<times> jsnum option \<times> jsnum option" where
  "getFertilizerEfficiency fertilizerFeatures lon lat cropType =
     (if fertilizerFeatures = [] then (None, None, None)
      else
        let targetCrop = cropMap cropType;
            matching = filter (\<lambda>f. fert_crop f = targetCrop \<and> eff_N f \<noteq> None) fertilizerFeatures;
            candidates = (if matching = [] then filter (\<lambda>f. eff_N f \<noteq> None) fertilizerFeatures
                          else matching)
        in (case candidates of
              [] \<Rightarrow> (None, None, None)
            | c # cs \<Rightarrow>
                let best = nearest (\<lambda>f. sqdist (fert_coords f) (lon, lat)) c cs
                in (eff_N best, eff_P best, eff_K best)))"

text \<open>A text is truthy when it is present and not empty.\<close>

definition present :: "string option \<Rightarrow> bool" where
  "present s = (s \<noteq> None \<and> s \<noteq> Some [])"

definition getSowingDate ::
  "farming_feature list \<Rightarrow> jsnum \<Rightarrow> jsnum \<Rightarrow> crop \<Rightarrow> (string option \<times> string option) option" where
  "getSowingDate farmingFeatures lon lat cropType =
     (if farmingFeatures = [] then None
      else
        let targetCrop = cropMap cropType;
            matching = filter (\<lambda>f. farm_crop f = targetCrop \<and> present (sowing_date_start f)) farmingFeatures;
            candidates = (if matching = [] then filter (\<lambda>f. present (sowing_date_start f)) farmingFeatures
                          else matching)
        in (case candidates of
              [] \<Rightarrow> None
            | c # cs \<Rightarrow>
                let best = nearest (\<lambda>f. sqdist (farm_coords f) (lon, lat)) c cs
                in Some (sowing_date_start best, sowing_date_end best)))"

section \<open>The fertilizer model\<close>

text \<open>The constants of \<^verbatim>\<open>defaultParams\<close>.\<close>

definition urea_N_content :: real where
  "urea_N_content = 46 / 100"

definition superphosphate_P_content :: real where
  "superphosphate_P_content = 12 / 100"

definition potassium_chloride_K_content :: real where
  "potassium_chloride_K_content = 60 / 100"

record crop_params =
  N_per_100kg :: real
  P_per_100kg :: real
  K_per_100kg :: real
  normal_sowing_date :: string
  straw_N :: real
  straw_P :: real
  straw_K :: real
  straw_moisture :: real
  straw_CN_ratio :: real
  N_release_rate :: real
  P_release_rate :: real
  K_release_rate :: real
  N_fertilizer_efficiency :: real
  P_fertilizer_efficiency :: real
  K_fertilizer_efficiency :: real

fun defaultParams :: "crop \<Rightarrow> crop_params" where
  "defaultParams Rice =
     \<lparr> N_per_100kg = 22 / 10, P_per_100kg = 12 / 10, K_per_100kg = 25 / 10,
       normal_sowing_date = ''06-17'',
       straw_N = 6 / 10, straw_P = 1 / 10, straw_K = 18 / 10,
       straw_moisture = 40, straw_CN_ratio = 80,
       N_release_rate = - (6 / 10), P_release_rate = 65 / 100, K_release_rate = 80 / 100,
       N_fertilizer_efficiency = 30 / 100, P_fertilizer_efficiency = 25 / 100,
       K_fertilizer_efficiency = 45 / 100 \<rparr>"
| "defaultParams Wheat =
     \<lparr> N_per_100kg = 3, P_per_100kg = 15 / 10, K_per_100kg = 28 / 10,
       normal_sowing_date = ''11-01'',
       straw_N = 5 / 10, straw_P = 1 / 10, straw_K = 12 / 10,
       straw_moisture = 15, straw_CN_ratio = 70,
       N_release_rate = 35 / 100, P_release_rate = 75 / 100, K_release_rate = 90 / 100,
       N_fertilizer_efficiency = 40 / 100, P_fertilizer_efficiency = 18 / 100,
       K_fertilizer_efficiency = 50 / 100 \<rparr>"

text \<open>The yield tiers of wheat and the N-P-K percentages of its compound fertilizer.\<close>

record yield_level =
  level_min :: jsnum
  level_max :: jsnum
  base_fertilizer :: "real \<times> real"
  urea_tillering :: "real \<times> real"

definition yield_levels :: "yield_level list" where
  "yield_levels =
     [ \<lparr> level_min = Fin 0, level_max = Fin 300, base_fertilizer = (25, 30), urea_tillering = (6, 8) \<rparr>,
       \<lparr> level_min = Fin 300, level_max = Fin 400, base_fertilizer = (30, 40), urea_tillering = (8, 10) \<rparr>,
       \<lparr> level_min = Fin 400, level_max = Fin 500, base_fertilizer = (40, 50), urea_tillering = (10, 12) \<rparr>,
       \<lparr> level_min = Fin 500, level_max = PInf, base_fertilizer = (50, 55), urea_tillering = (12, 14) \<rparr> ]"

definition formula_ratio :: "real \<times> real \<times> real" where
  "formula_ratio = (20, 15, 10)"

text \<open>The functions of \<^verbatim>\<open>soil_impact\<close>.\<close>

definition organic_matter_impact :: "real \<Rightarrow> jsnum \<Rightarrow> jsnum" where
  "organic_matter_impact slope om = jadd (Fin 1) (jmul (Fin slope) (jsub om (Fin 20)))"

definition om_impact_N :: "jsnum \<Rightarrow> jsnum" where
  "om_impact_N om = organic_matter_impact (15 / 1000) om"

definition om_impact_P :: "jsnum \<Rightarrow> jsnum" where
  "om_impact_P om = organic_matter_impact (1 / 100) om"

definition om_impact_K :: "jsnum \<Rightarrow> jsnum" where
  "om_impact_K om = organic_matter_impact (8 / 1000) om"

definition ph_adjustment :: "jsnum \<Rightarrow> jsnum" where
  "ph_adjustment ph = (if jge ph (Fin 6) \<and> jle ph (Fin 7) then Fin 1 else Fin (7 / 10))"

definition calculateNutrientRequirement :: "jsnum \<Rightarrow> crop \<Rightarrow> jsnum \<times> jsnum \<times> jsnum" where
  "calculateNutrientRequirement targetYield cropType =
     (let p = defaultParams cropType
      in (jmul (jdiv targetYield (Fin 100)) (Fin (N_per_100kg p)),
          jmul (jdiv targetYield (Fin 100)) (Fin (P_per_100kg p)),
          jmul (jdiv targetYield (Fin 100)) (Fin (K_per_100kg p))))"

record soil_impact =
  impact_N :: jsnum
  impact_P :: jsnum
  impact_K :: jsnum
  ph_impact_on_p :: jsnum

text \<open>The correction factors of \<^verbatim>\<open>calculateSoilSupply\<close>, rice first, then wheat.\<close>

definition riceCorr :: "real \<Rightarrow> real \<Rightarrow> jsnum \<Rightarrow> jsnum" where
  "riceCorr a b soil = jdiv (jadd (Fin a) (jdiv (Fin b) soil)) (Fin 100)"

definition wheatCorr :: "real \<Rightarrow> real \<Rightarrow> jsnum \<Rightarrow> jsnum" where
  "wheatCorr a b soil = jmul (Fin a) (jexp (jmul (Fin (- b)) soil))"

definition calculateSoilSupply ::
  "jsnum \<Rightarrow> jsnum \<Rightarrow> jsnum \<Rightarrow> jsnum \<Rightarrow> jsnum \<Rightarrow> crop \<Rightarrow> jsnum \<times> jsnum \<times> jsnum \<times> soil_impact" where
  "calculateSoilSupply soilN soilP soilK organicMatter soilPh cropType =
     (let convFactor = Fin (15 / 100);
          nCorr = (if cropType = Rice then riceCorr (32164 / 10000) (47999239 / 10000) soilN
                   else wheatCorr (821222 / 1000000) (5429 / 1000000) soilN);
          pCorr = (if cropType = Rice then riceCorr (174898 / 10000) (22359674 / 10000) soilP
                   else wheatCorr (1976 / 1000) (41744 / 1000000) soilP);
          kCorr = (if cropType = Rice then riceCorr (107412 / 10000) (61471032 / 10000) soilK
                   else wheatCorr (11038 / 10000) (6362 / 1000000) soilK);
          phImpact = ph_adjustment soilPh;
          nSupply = jmul (jmul (jmul soilN convFactor) nCorr) (om_impact_N organicMatter);
          pSupply = jmul (jmul (jmul (jmul soilP convFactor) pCorr) (om_impact_P organicMatter)) phImpact;
          kSupply = jmul (jmul (jmul soilK convFactor) kCorr) (om_impact_K organicMatter)
      in (nSupply, pSupply, kSupply,
          \<lparr> impact_N = om_impact_N organicMatter,
            impact_P = om_impact_P organicMatter,
            impact_K = om_impact_K organicMatter,
            ph_impact_on_p = phImpact \<rparr>))"

definition calculateStrawSupply :: "jsnum \<Rightarrow> crop \<Rightarrow> jsnum \<times> jsnum \<times> jsnum \<times> jsnum" where
  "calculateStrawSupply amount strawType =
     (if jle amount (Fin 0) then (Fin 0, Fin 0, Fin 0, Fin 0)
      else
        let p = defaultParams strawType;
            dryWeight = jmul amount (Fin (1 - straw_moisture p / 100));
            nTotal = jmul dryWeight (Fin (straw_N p / 100));
            pTotal = jmul dryWeight (Fin (straw_P p / 100));
            kTotal = jmul dryWeight (Fin (straw_K p / 100))
        in (jmul nTotal (Fin (N_release_rate p)),
            jmul pTotal (Fin (P_release_rate p)),
            jmul kTotal (Fin (K_release_rate p)),
            jmul dryWeight (Fin (5 / 1000))))"

text \<open>
  The parts of the JavaScript runtime that \<^verbatim>\<open>adjustFertilizerRatio\<close> and
  \<^verbatim>\<open>calculateGrowthStage\<close> call. A \<^verbatim>\<open>Date\<close> is its time value: milliseconds since
  the epoch, or NaN for an invalid date. \<open>date_parse\<close> is \<^verbatim>\<open>new Date(text)\<close>,
  \<open>get_full_year\<close> is \<^verbatim>\<open>getFullYear()\<close> and \<open>number_to_string\<close> is the text a
  number takes inside a template literal. They are parameters of the model.
\<close>

record js_runtime =
  date_parse :: "string \<Rightarrow> jsnum"
  get_full_year :: "jsnum \<Rightarrow> jsnum"
  number_to_string :: "jsnum \<Rightarrow> string"

text \<open>
  The object \<^verbatim>\<open>adjustFertilizerRatio\<close> returns: for rice the base, tillering and
  panicle ratios, for wheat the base, jointing and booting ratios.
\<close>

datatype ratio_params = RiceRatios jsnum jsnum jsnum | WheatRatios jsnum jsnum jsnum

fun base_ratio :: "ratio_params \<Rightarrow> jsnum option" where
  "base_ratio (RiceRatios b t p) = Some b"
| "base_ratio (WheatRatios b j k) = Some b"

fun tiller_ratio :: "ratio_params \<Rightarrow> jsnum option" where
  "tiller_ratio (RiceRatios b t p) = Some t"
| "tiller_ratio (WheatRatios b j k) = None"

fun panicle_ratio :: "ratio_params \<Rightarrow> jsnum option" where
  "panicle_ratio (RiceRatios b t p) = Some p"
| "panicle_ratio (WheatRatios b j k) = None"

fun jointing_ratio :: "ratio_params \<Rightarrow> jsnum option" where
  "jointing_ratio (RiceRatios b t p) = None"
| "jointing_ratio (WheatRatios b j k) = Some j"

fun booting_ratio :: "ratio_params \<Rightarrow> jsnum option" where
  "booting_ratio (RiceRatios b t p) = None"
| "booting_ratio (WheatRatios b j k) = Some k"

text \<open>\<^verbatim>\<open>Math.max(0, Math.min(1, x))\<close>.\<close>

definition clamp01 :: "jsnum \<Rightarrow> jsnum" where
  "clamp01 x = jmax (Fin 0) (jmin (Fin 1) x)"

text \<open>
  The first lines of \<^verbatim>\<open>adjustFertilizerRatio\<close>: the days between the sowing date and
  the normal sowing date of the crop in the same year.
\<close>

definition sowingDaysDiff :: "js_runtime \<Rightarrow> string \<Rightarrow> crop \<Rightarrow> jsnum" where
  "sowingDaysDiff rt sowingDate cropType =
     (let actualDate = date_parse rt sowingDate;
          year = get_full_year rt actualDate;
          normalDateStr = normal_sowing_date (defaultParams cropType);
          normalDate = date_parse rt (number_to_string rt year @ ''-'' @ normalDateStr)
      in jround (jdiv (jsub actualDate normalDate) (Fin 86400000)))"

text \<open>
  \<^verbatim>\<open>adjustFertilizerRatio(sowingDate, cropType, tempForecast)\<close>. Nothing in the body
  throws for the two crops (\<^verbatim>\<open>new Date\<close> of a text that is no date is an invalid
  date, not an exception), so the \<^verbatim>\<open>catch\<close> branch is never taken.
\<close>

definition adjustFertilizerRatio :: "js_runtime \<Rightarrow> string \<Rightarrow> crop \<Rightarrow> jsnum \<Rightarrow> ratio_params" where
  "adjustFertilizerRatio rt sowingDate cropType tempForecast =
     (let daysDiff = sowingDaysDiff rt sowingDate cropType
      in if cropType = Rice then
           (case (if jlt daysDiff (Fin (- 7)) then (40 / 100, 25 / 100, 35 / 100)
                  else if jgt daysDiff (Fin 7) then (55 / 100, 30 / 100, 15 / 100)
                  else (50 / 100, 25 / 100, 25 / 100)) of
              (base, tiller, panicle) \<Rightarrow>
                (case (if jlt tempForecast (Fin 20) then (base + 5 / 100, panicle - 5 / 100)
                       else (base, panicle)) of
                   (base', panicle') \<Rightarrow>
                     RiceRatios (clamp01 (Fin base')) (clamp01 (Fin tiller)) (clamp01 (Fin panicle'))))
         else
           (case (if jlt daysDiff (Fin (- 7)) then (60 / 100, 25 / 100, 15 / 100)
                  else if jgt daysDiff (Fin 7) then (70 / 100, 20 / 100, 10 / 100)
                  else (65 / 100, 25 / 100, 10 / 100)) of
              (base, joint, boot) \<Rightarrow>
                (case (if jlt tempForecast (Fin 10) then (base + 5 / 100, boot - 5 / 100)
                       else (base, boot)) of
                   (base', boot') \<Rightarrow>
                     WheatRatios (clamp01 (Fin base')) (clamp01 (Fin joint)) (clamp01 (Fin boot')))))"

definition getWheatFertilizerByYield :: "jsnum \<Rightarrow> real \<times> real" where
  "getWheatFertilizerByYield targetYield =
     (let level = (case find (\<lambda>l. jge targetYield (level_min l) \<and> jle targetYield (level_max l)) yield_levels of
                     Some l \<Rightarrow> l
                   | None \<Rightarrow> last yield_levels)
      in ((fst (base_fertilizer level) + snd (base_fertilizer level)) / 2,
          (fst (urea_tillering level) + snd (urea_tillering level)) / 2))"

section \<open>The recommendation\<close>

text \<open>The argument \<^verbatim>\<open>inputParams\<close>; an absent or \<^verbatim>\<open>null\<close> property is \<open>None\<close>.\<close>

record input_params =
  target_yield :: "jsnum option"
  custom_soil_data :: "custom_soil option"
  use_custom_soil :: bool
  lon :: "jsnum option"
  lat :: "jsnum option"
  organic_matter :: "jsnum option"
  soil_ph :: "jsnum option"
  straw_return_amount :: "jsnum option"
  sowing_date :: "string option"
  temperature_forecast :: "jsnum option"

text \<open>
  The data the model reads besides its arguments: the raster cache and the two feature
  collections, all filled once at start-up.
\<close>

record geo_context =
  geotiffCache :: geotiff_cache
  fertilizerFeatures :: "fertilizer_feature list"
  farmingFeatures :: "farming_feature list"

text \<open>\<^verbatim>\<open>a ?? b\<close> and \<^verbatim>\<open>a || b\<close> on a nullable number, and on a nullable text.\<close>

definition nullish_or :: "jsnum option \<Rightarrow> jsnum \<Rightarrow> jsnum" where
  "nullish_or v d = (case v of None \<Rightarrow> d | Some x \<Rightarrow> x)"

definition falsy_or :: "jsnum option \<Rightarrow> jsnum \<Rightarrow> jsnum" where
  "falsy_or v d = (case v of None \<Rightarrow> d | Some x \<Rightarrow> jor x d)"

definition text_or :: "string option \<Rightarrow> string \<Rightarrow> string" where
  "text_or v d = (case v of None \<Rightarrow> d | Some t \<Rightarrow> if t = [] then d else t)"

text \<open>
  The first block of \<^verbatim>\<open>calculateFertilizerRecommendation\<close>: the soil record, from
  the resolver when both coordinates are given, else from the manual values (when
  there are any and \<^verbatim>\<open>use_custom_soil\<close> is set) with the built-in contents for the
  missing ones, else the built-in record of the crop.
\<close>

definition resolveSoil ::
  "geo_context \<Rightarrow> real \<times> real \<times> real \<Rightarrow> input_params \<Rightarrow> crop \<Rightarrow> soil_data" where
  "resolveSoil ctx rnd inputParams cropType =
     (let customSoilData = custom_soil_data inputParams;
          lonNum = falsy_or (lon inputParams) (Fin (114305 / 1000));
          latNum = falsy_or (lat inputParams) (Fin (30592 / 1000))
      in if lon inputParams \<noteq> None \<and> lat inputParams \<noteq> None then
           getSoilNutrientsWithCustom (geotiffCache ctx) rnd lonNum latNum customSoilData
         else
           (case (if use_custom_soil inputParams then customSoilData else None) of
              Some c \<Rightarrow>
                \<lparr> soil_N = Some (nullish_or (custom_N c) (Fin (892 / 10))),
                  soil_P = Some (nullish_or (custom_P c) (Fin (238 / 10))),
                  soil_K = Some (nullish_or (custom_K c) (Fin 105)),
                  nutrient_levels =
                    \<lparr> level_AN = getNutrientLevel (nullish_or (custom_N c) (Fin (892 / 10))) AN,
                      level_AP = getNutrientLevel (nullish_or (custom_P c) (Fin (238 / 10))) AP,
                      level_AK = getNutrientLevel (nullish_or (custom_K c) (Fin 105)) AK \<rparr>,
                  data_source = \<lparr> source_AN = Manual, source_AP = Manual, source_AK = Manual \<rparr>,
                  is_default = True,
                  use_custom = True \<rparr>
            | None \<Rightarrow>
                \<lparr> soil_N = Some (if cropType = Rice then Fin (892 / 10) else Fin 89),
                  soil_P = Some (if cropType = Rice then Fin (2383 / 100) else Fin 23),
                  soil_K = Some (if cropType = Rice then Fin 105 else Fin 90),
                  nutrient_levels =
                    \<lparr> level_AN = DefaultLevel, level_AP = DefaultLevel, level_AK = DefaultLevel \<rparr>,
                  data_source =
                    \<lparr> source_AN = DefaultSource, source_AP = DefaultSource, source_AK = DefaultSource \<rparr>,
                  is_default = True,
                  use_custom = False \<rparr>))"

text \<open>
  The sowing date block: the date of the request, else the start of the nearest
  feature's range, else the fixed date of the crop; together with the start and the
  end of the recommended range.
\<close>

definition defaultSowingDate :: "crop \<Rightarrow> string" where
  "defaultSowingDate cropType = (if cropType = Rice then ''2026-06-17'' else ''2026-11-01'')"

definition resolveSowingDate ::
  "geo_context \<Rightarrow> input_params \<Rightarrow> crop \<Rightarrow> string \<times> string option \<times> string option" where
  "resolveSowingDate ctx inputParams cropType =
     (let lonNum = falsy_or (lon inputParams) (Fin (114305 / 1000));
          latNum = falsy_or (lat inputParams) (Fin (30592 / 1000));
          sdGeo = (if lon inputParams \<noteq> None \<and> lat inputParams \<noteq> None
                   then getSowingDate (farmingFeatures ctx) lonNum latNum cropType else None)
      in (case (case sdGeo of
                  None \<Rightarrow> (sowing_date inputParams, None, None)
                | Some (geoStart, geoEnd) \<Rightarrow>
                    (if present (sowing_date inputParams) then sowing_date inputParams else geoStart,
                     geoStart, geoEnd)) of
            (sowingDate, sowingDateStart, sowingDateEnd) \<Rightarrow>
              if present sowingDate then (text_or sowingDate (defaultSowingDate cropType), sowingDateStart, sowingDateEnd)
              else (defaultSowingDate cropType,
                    (if present sowingDateStart then sowingDateStart else Some (defaultSowingDate cropType)),
                    (if present sowingDateEnd then sowingDateEnd else Some (defaultSowingDate cropType)))))"

text \<open>
  The values \<^verbatim>\<open>calculateFertilizerRecommendation\<close> has computed when it reaches its
  step 7: demand, soil supply, straw supply, efficiencies and the required nutrient
  masses of steps 1 to 6.
\<close>

record balance =
  targetYield :: jsnum
  soilData :: soil_data
  organicMatter :: jsnum
  soilPh :: jsnum
  sowingDates :: "string \<times> string option \<times> string option"
  tempForecast :: jsnum
  required :: "jsnum \<times> jsnum \<times> jsnum"
  soilSupply :: "jsnum \<times> jsnum \<times> jsnum"
  soilImpact :: soil_impact
  strawSupply :: "jsnum \<times> jsnum \<times> jsnum"
  nAdditional :: jsnum
  efficiency :: "jsnum \<times> jsnum \<times> jsnum"
  nFertilizer :: jsnum
  pFertilizer :: jsnum
  kFertilizer :: jsnum

definition nutrientBalance ::
  "geo_context \<Rightarrow> real \<times> real \<times> real \<Rightarrow> input_params \<Rightarrow> crop \<Rightarrow> crop option \<Rightarrow> balance" where
  "nutrientBalance ctx rnd inputParams cropType strawSourceType =
     (let yield = falsy_or (target_yield inputParams) (Fin 500);
          lonNum = falsy_or (lon inputParams) (Fin (114305 / 1000));
          latNum = falsy_or (lat inputParams) (Fin (30592 / 1000));
          soil = resolveSoil ctx rnd inputParams cropType;
          om = nullish_or (organic_matter inputParams) (Fin (207 / 10));
          ph = nullish_or (soil_ph inputParams) (Fin (818 / 100));
          strawAmount = nullish_or (straw_return_amount inputParams)
                          (if cropType = Rice then Fin 600 else Fin 700);
          temp = nullish_or (temperature_forecast inputParams)
                   (if cropType = Rice then Fin (225 / 10) else Fin 12);
          strawType = (case strawSourceType of
                         None \<Rightarrow> (if cropType = Rice then Wheat else Rice)
                       | Some t \<Rightarrow> t);
          phImpactOnP = ph_adjustment ph;
          effGeo = (if lon inputParams \<noteq> None \<and> lat inputParams \<noteq> None
                    then getFertilizerEfficiency (fertilizerFeatures ctx) lonNum latNum cropType
                    else (None, None, None));
          cropP = defaultParams cropType
      in (case calculateNutrientRequirement yield cropType of (nReq, pReq, kReq) \<Rightarrow>
          case calculateSoilSupply (num_of (soil_N soil)) (num_of (soil_P soil)) (num_of (soil_K soil))
                 om ph cropType of (nSoil, pSoil, kSoil, impact) \<Rightarrow>
          case calculateStrawSupply strawAmount strawType of (nStraw, pStraw, kStraw, nAdd) \<Rightarrow>
          case effGeo of (nEffGeo, pEffGeo, kEffGeo) \<Rightarrow>
            let nEff = nullish_or nEffGeo (Fin (N_fertilizer_efficiency cropP));
                pEff = nullish_or pEffGeo (Fin (P_fertilizer_efficiency cropP));
                kEff = nullish_or kEffGeo (Fin (K_fertilizer_efficiency cropP));
                pEfficiency = jmul pEff phImpactOnP
            in \<lparr> targetYield = yield,
                 soilData = soil,
                 organicMatter = om,
                 soilPh = ph,
                 sowingDates = resolveSowingDate ctx inputParams cropType,
                 tempForecast = temp,
                 required = (nReq, pReq, kReq),
                 soilSupply = (nSoil, pSoil, kSoil),
                 soilImpact = impact,
                 strawSupply = (nStraw, pStraw, kStraw),
                 nAdditional = nAdd,
                 efficiency = (nEff, pEfficiency, kEff),
                 nFertilizer = jmax (Fin 0) (jdiv (jsub (jsub nReq nSoil) nStraw) nEff),
                 pFertilizer = jmax (Fin 0) (jdiv (jsub (jsub pReq pSoil) pStraw) pEfficiency),
                 kFertilizer = jmax (Fin 0) (jdiv (jsub (jsub kReq kSoil) kStraw) kEff) \<rparr>))"

text \<open>
  The returned object. \<open>fertilizer\<close> holds the product masses in kg per mu, \<open>nutrient\<close>
  the nutrient masses in kg per mu, \<open>nitrogen_split\<close> the three nitrogen ratios in percent.
  For rice the products are urea at the base, tillering and panicle stage,
  superphosphate at the base stage and potassium chloride at the base and panicle stage;
  the nutrients are N at the three stages and the totals of P2O5 and K2O. For wheat the
  products are the compound fertilizer at the base stage, urea at jointing,
  superphosphate and potassium chloride at the base stage; the nutrients are N at the
  base stage and at jointing and the totals of P2O5 and K2O.
\<close>

record rice_fertilizer =
  urea_base :: jsnum
  urea_tiller :: jsnum
  urea_panicle :: jsnum
  superphosphate_base :: jsnum
  kcl_base :: jsnum
  kcl_panicle :: jsnum

record rice_nutrient =
  N_base :: jsnum
  N_tiller :: jsnum
  N_panicle :: jsnum
  P2O5_total :: jsnum
  K2O_total :: jsnum

record wheat_fertilizer =
  formula_base :: jsnum
  urea_jointing :: jsnum
  wheat_superphosphate_base :: jsnum
  wheat_kcl_base :: jsnum

record wheat_nutrient =
  wheat_N_base :: jsnum
  wheat_N_jointing :: jsnum
  wheat_P2O5_total :: jsnum
  wheat_K2O_total :: jsnum

datatype amounts =
  RiceAmounts rice_fertilizer rice_nutrient
| WheatAmounts wheat_fertilizer wheat_nutrient

record calc_params =
  param_target_yield :: jsnum
  nutrient_demand :: "jsnum \<times> jsnum \<times> jsnum"
  soil_supply :: "jsnum \<times> jsnum \<times> jsnum"
  straw_supply :: "jsnum \<times> jsnum \<times> jsnum"
  soil_content :: "jsnum \<times> jsnum \<times> jsnum"
  param_nutrient_levels :: levels3
  param_data_source :: sources3
  fertilizer_efficiency :: "jsnum \<times> jsnum \<times> jsnum"
  recommended_sowing_date :: string
  recommended_sowing_date_start :: "string option"
  recommended_sowing_date_end :: "string option"
  param_organic_matter :: jsnum
  param_soil_ph :: jsnum
  param_soil_impact :: soil_impact
  uses_default_data :: bool
  uses_custom_soil :: bool

record recommendation =
  amounts :: amounts
  nitrogen_split :: "jsnum \<times> jsnum \<times> jsnum"
  params :: calc_params
  crop_type :: crop

text \<open>\<^verbatim>\<open>Math.round(x * 1000) / 10\<close>, a ratio as a percentage with one decimal place.\<close>

definition percent1 :: "jsnum \<Rightarrow> jsnum" where
  "percent1 x = jdiv (jround (jmul x (Fin 1000))) (Fin 10)"

definition round1_3 :: "jsnum \<times> jsnum \<times> jsnum \<Rightarrow> jsnum \<times> jsnum \<times> jsnum" where
  "round1_3 t = (case t of (a, b, c) \<Rightarrow> (round1 a, round1 b, round1 c))"

text \<open>Steps 8 of the function: the amounts of the rice branch and of the wheat branch.\<close>

definition riceAmounts :: "balance \<Rightarrow> ratio_params \<Rightarrow> amounts" where
  "riceAmounts b ratioParams =
     (let nBase = jadd (jmul (nFertilizer b) (falsy_or (base_ratio ratioParams) (Fin (50 / 100)))) (nAdditional b);
          nTiller = jmul (nFertilizer b) (falsy_or (tiller_ratio ratioParams) (Fin (25 / 100)));
          nPanicle = jmul (nFertilizer b) (falsy_or (panicle_ratio ratioParams) (Fin (25 / 100)))
      in RiceAmounts
           \<lparr> urea_base = round1 (jdiv nBase (Fin urea_N_content)),
             urea_tiller = round1 (jdiv nTiller (Fin urea_N_content)),
             urea_panicle = round1 (jdiv nPanicle (Fin urea_N_content)),
             superphosphate_base = round1 (jdiv (pFertilizer b) (Fin superphosphate_P_content)),
             kcl_base = round1 (jdiv (jmul (kFertilizer b) (Fin (6 / 10))) (Fin potassium_chloride_K_content)),
             kcl_panicle = round1 (jdiv (jmul (kFertilizer b) (Fin (4 / 10))) (Fin potassium_chloride_K_content)) \<rparr>
           \<lparr> N_base = round1 nBase,
             N_tiller = round1 nTiller,
             N_panicle = round1 nPanicle,
             P2O5_total = round1 (pFertilizer b),
             K2O_total = round1 (kFertilizer b) \<rparr>)"

definition wheatAmounts :: "balance \<Rightarrow> amounts" where
  "wheatAmounts b =
     (case getWheatFertilizerByYield (targetYield b) of (formulaKg, ureaTilleringKg) \<Rightarrow>
      case formula_ratio of (fr0, fr1, fr2) \<Rightarrow>
        let formulaN = jmul (Fin formulaKg) (Fin (fr0 / 100));
            formulaP = jmul (Fin formulaKg) (Fin (fr1 / 100));
            formulaK = jmul (Fin formulaKg) (Fin (fr2 / 100))
        in WheatAmounts
             \<lparr> formula_base = round1 (Fin formulaKg),
               urea_jointing = round1 (Fin ureaTilleringKg),
               wheat_superphosphate_base = round1 (jdiv formulaP (Fin superphosphate_P_content)),
               wheat_kcl_base = round1 (jdiv formulaK (Fin potassium_chloride_K_content)) \<rparr>
             \<lparr> wheat_N_base = round1 formulaN,
               wheat_N_jointing = round1 (jmul (Fin ureaTilleringKg) (Fin urea_N_content)),
               wheat_P2O5_total = round1 formulaP,
               wheat_K2O_total = round1 formulaK \<rparr>)"

definition nitrogenSplit :: "crop \<Rightarrow> ratio_params \<Rightarrow> jsnum \<times> jsnum \<times> jsnum" where
  "nitrogenSplit cropType ratioParams =
     (if cropType = Rice then
        (percent1 (falsy_or (base_ratio ratioParams) (Fin (50 / 100))),
         percent1 (falsy_or (tiller_ratio ratioParams) (Fin (25 / 100))),
         percent1 (falsy_or (panicle_ratio ratioParams) (Fin (25 / 100))))
      else
        (percent1 (falsy_or (base_ratio ratioParams) (Fin (65 / 100))),
         percent1 (falsy_or (jointing_ratio ratioParams) (Fin (25 / 100))),
         percent1 (falsy_or (booting_ratio ratioParams) (Fin (10 / 100)))))"

definition calcParams :: "balance \<Rightarrow> calc_params" where
  "calcParams b =
     \<lparr> param_target_yield = targetYield b,
       nutrient_demand = round1_3 (required b),
       soil_supply = round1_3 (soilSupply b),
       straw_supply = round1_3 (strawSupply b),
       soil_content = round1_3 (num_of (soil_N (soilData b)), num_of (soil_P (soilData b)),
                                 num_of (soil_K (soilData b))),
       param_nutrient_levels = nutrient_levels (soilData b),
       param_data_source = data_source (soilData b),
       fertilizer_efficiency =
         (case efficiency b of (nEff, pEfficiency, kEff) \<Rightarrow>
            (percent1 nEff, percent1 pEfficiency, percent1 kEff)),
       recommended_sowing_date = fst (sowingDates b),
       recommended_sowing_date_start = fst (snd (sowingDates b)),
       recommended_sowing_date_end = snd (snd (sowingDates b)),
       param_organic_matter = organicMatter b,
       param_soil_ph = soilPh b,
       param_soil_impact = soilImpact b,
       uses_default_data = is_default (soilData b),
       uses_custom_soil = use_custom (soilData b) \<rparr>"

text \<open>\<^verbatim>\<open>calculateFertilizerRecommendation(inputParams, cropType, strawSourceType)\<close>.\<close>

definition calculateFertilizerRecommendation ::
  "geo_context \<Rightarrow> js_runtime \<Rightarrow> real \<times> real \<times> real \<Rightarrow> input_params \<Rightarrow> crop \<Rightarrow> crop option \<Rightarrow> recommendation" where
  "calculateFertilizerRecommendation ctx rt rnd inputParams cropType strawSourceType =
     (let b = nutrientBalance ctx rnd inputParams cropType strawSourceType;
          ratioParams = adjustFertilizerRatio rt (fst (sowingDates b)) cropType (tempForecast b)
      in \<lparr> amounts = (if cropType = Rice then riceAmounts b ratioParams else wheatAmounts b),
           nitrogen_split = nitrogenSplit cropType ratioParams,
           params = calcParams b,
           crop_type = cropType \<rparr>)"

section \<open>The calculation request\<close>

text \<open>
  A value of a JSON body: absent, \<^verbatim>\<open>null\<close>, a boolean, a number, a text, or an
  array or object, kept as the text it converts to.
\<close>

datatype jsval = JUndefined | JNull | JBool bool | JNum jsnum | JStr string | JOther string

fun truthy_val :: "jsval \<Rightarrow> bool" where
  "truthy_val JUndefined = False"
| "truthy_val JNull = False"
| "truthy_val (JBool b) = b"
| "truthy_val (JNum n) = truthy n"
| "truthy_val (JStr s) = (s \<noteq> [])"
| "truthy_val (JOther s) = True"

fun nullish :: "jsval \<Rightarrow> bool" where
  "nullish JUndefined = True"
| "nullish JNull = True"
| "nullish v = False"

text \<open>
  \<^verbatim>\<open>parseFloat(v)\<close>: a number is returned as it is; a text is parsed by the runtime
  (the parameter \<open>parse_float_text\<close>); anything else is no number.
\<close>

fun parseFloat :: "(string \<Rightarrow> jsnum) \<Rightarrow> jsval \<Rightarrow> jsnum" where
  "parseFloat parse_float_text (JNum n) = n"
| "parseFloat parse_float_text (JStr s) = parse_float_text s"
| "parseFloat parse_float_text (JOther s) = parse_float_text s"
| "parseFloat parse_float_text v = NaN"

text \<open>
  The crop name of a request: the name of rice, the name of wheat, or anything else
  (any other text, or none).
\<close>

datatype crop_name = RiceName | WheatName | OtherName

record raw_custom_soil =
  raw_N :: jsval
  raw_P :: jsval
  raw_K :: jsval

text \<open>
  The property \<^verbatim>\<open>custom_soil_data\<close> of a body: absent or falsy; an object, with the
  values under its keys N, P and K; or a truthy value that is no object, on which the
  operator \<^verbatim>\<open>in\<close> throws.
\<close>

datatype custom_field = NoCustom | CustomObject raw_custom_soil | CustomPrimitive

record calculate_body =
  body_crop :: crop_name
  body_yield :: jsval
  body_date :: "string option"
  body_lon :: jsval
  body_lat :: jsval
  body_custom_soil_data :: custom_field
  body_use_custom_soil :: jsval

text \<open>
  The reasons of a rejection, one for each status-400 message of the handler, in the
  order of its checks.
\<close>

datatype reject_reason =
  NoData
| BadCropType
| MissingYield
| MissingDateOrCoordinates
| NotNumeric
| YieldOutOfRange
| CoordinatesOutOfRange
| SoilNOutOfRange
| SoilPOutOfRange
| SoilKOutOfRange

datatype calculate_response = Rejected reject_reason | Computed recommendation

text \<open>
  The conversion of one manual value: parsed when the key is there and not
  \<^verbatim>\<open>null\<close>, and \<^verbatim>\<open>null\<close> when the result is no number.
\<close>

definition parseCustom :: "(string \<Rightarrow> jsnum) \<Rightarrow> jsval \<Rightarrow> jsnum option" where
  "parseCustom parse_float_text v =
     (if nullish v then None
      else let x = parseFloat parse_float_text v in if x = NaN then None else Some x)"

definition outside :: "jsnum option \<Rightarrow> real \<Rightarrow> real \<Rightarrow> bool" where
  "outside v lo hi = (case v of None \<Rightarrow> False | Some x \<Rightarrow> jlt x (Fin lo) \<or> jgt x (Fin hi))"

text \<open>The window of longitudes and latitudes the handler accepts.\<close>

definition inWindow :: "jsnum \<Rightarrow> jsnum \<Rightarrow> bool" where
  "inWindow lonNum latNum =
     (jge lonNum (Fin 110) \<and> jle lonNum (Fin 122) \<and> jge latNum (Fin 28) \<and> jle latNum (Fin 33))"

text \<open>
  The handler of \<^verbatim>\<open>POST /calculate\<close>, up to the call of the model. The response it
  builds from the recommendation and the record it saves are left out. Of the
  conversions inside its \<^verbatim>\<open>try\<close> block only the test \<^verbatim>\<open>key in customSoilData\<close> can
  throw, when the manual data is no object; the \<^verbatim>\<open>catch\<close> branch then rejects the
  request.
\<close>

definition calculateHandler ::
  "geo_context \<Rightarrow> js_runtime \<Rightarrow> (string \<Rightarrow> jsnum) \<Rightarrow> real \<times> real \<times> real \<Rightarrow> calculate_body option \<Rightarrow> calculate_response" where
  "calculateHandler ctx rt parse_float_text rnd body =
     (case body of
        None \<Rightarrow> Rejected NoData
      | Some d \<Rightarrow>
          if body_crop d = OtherName then Rejected BadCropType
          else if \<not> truthy_val (body_yield d) then Rejected MissingYield
          else if body_date d = None \<and> (nullish (body_lon d) \<or> nullish (body_lat d))
          then Rejected MissingDateOrCoordinates
          else if body_custom_soil_data d = CustomPrimitive then Rejected NotNumeric
          else
            let yield = parseFloat parse_float_text (body_yield d);
                lonNum = parseFloat parse_float_text (body_lon d);
                latNum = parseFloat parse_float_text (body_lat d);
                customSoilData =
                  (case body_custom_soil_data d of
                     CustomObject c \<Rightarrow>
                       \<lparr> custom_N = parseCustom parse_float_text (raw_N c),
                         custom_P = parseCustom parse_float_text (raw_P c),
                         custom_K = parseCustom parse_float_text (raw_K c) \<rparr>
                   | _ \<Rightarrow> \<lparr> custom_N = None, custom_P = None, custom_K = None \<rparr>)
            in if jle yield (Fin 0) \<or> jgt yield (Fin 1000) then Rejected YieldOutOfRange
               else if \<not> inWindow lonNum latNum then Rejected CoordinatesOutOfRange
               else if outside (custom_N customSoilData) 0 300 then Rejected SoilNOutOfRange
               else if outside (custom_P customSoilData) 0 100 then Rejected SoilPOutOfRange
               else if outside (custom_K customSoilData) 0 500 then Rejected SoilKOutOfRange
               else
                 let useCustomSoil = truthy_val (body_use_custom_soil d);
                     inputParams =
                       \<lparr> target_yield = Some yield,
                         custom_soil_data = (if useCustomSoil then Some customSoilData else None),
                         use_custom_soil = useCustomSoil,
                         lon = Some lonNum,
                         lat = Some latNum,
                         organic_matter = Some (Fin (207 / 10)),
                         soil_ph = Some (Fin (818 / 100)),
                         straw_return_amount = Some (if body_crop d = RiceName then Fin 600 else Fin 700),
                         sowing_date = body_date d,
                         temperature_forecast =
                           Some (if body_crop d = RiceName then Fin (225 / 10) else Fin 12) \<rparr>;
                     internalCrop = (if body_crop d = RiceName then Rice else Wheat);
                     strawSourceType = (if internalCrop = Rice then Wheat else Rice)
                 in Computed (calculateFertilizerRecommendation ctx rt rnd inputParams internalCrop
                                (Some strawSourceType)))"

section \<open>Growth stage and timing advice\<close>

datatype stage =
  PreSowing | Sowing | Seedling | Tillering | Overwintering | Greenup | Jointing
| Booting | Heading | Maturity | Harvest | UnknownStage

text \<open>
  \<^verbatim>\<open>calculateGrowthStage(cropType, sowingDate)\<close>, the stage it returns (the description
  that goes with the stage is left out). \<open>now\<close> is \<^verbatim>\<open>Date.now()\<close>. The crop is rice
  when its name is the name of rice, and wheat for every other name.
\<close>

definition calculateGrowthStage :: "js_runtime \<Rightarrow> jsnum \<Rightarrow> crop_name \<Rightarrow> string option \<Rightarrow> stage" where
  "calculateGrowthStage rt now cropType sowingDate =
     (if \<not> present sowingDate then Sowing
      else
        let sowing = date_parse rt (text_or sowingDate []);
            days = jround (jdiv (jsub now sowing) (Fin 86400000))
        in if cropType = RiceName then
             (if jlt days (Fin 0) then PreSowing
              else if jlt days (Fin 7) then Sowing
              else if jlt days (Fin 21) then Seedling
              else if jlt days (Fin 45) then Tillering
              else if jlt days (Fin 65) then Jointing
              else if jlt days (Fin 85) then Booting
              else if jlt days (Fin 105) then Heading
              else Maturity)
           else
             (if jlt days (Fin 0) then PreSowing
              else if jlt days (Fin 15) then Sowing
              else if jlt days (Fin 60) then Tillering
              else if jlt days (Fin 120) then Overwintering
              else if jlt days (Fin 150) then Greenup
              else if jlt days (Fin 180) then Jointing
              else if jlt days (Fin 210) then Booting
              else if jlt days (Fin 240) then Heading
              else Maturity))"

text \<open>
  The weather analysis as \<^verbatim>\<open>generateTimingAdvice\<close> reads it: the flag \<open>suitable\<close>
  (\<open>None\<close> when the property is absent) and the warning text, as UTF-8 bytes.
\<close>

record weather_analysis =
  suitable :: "bool option"
  warning :: "string option"

text \<open>\<^verbatim>\<open>text.includes(pattern)\<close>.\<close>

fun text_includes :: "string \<Rightarrow> string \<Rightarrow> bool" where
  "text_includes [] pattern = (pattern = [])"
| "text_includes (c # cs) pattern = (take (length pattern) (c # cs) = pattern \<or> text_includes cs pattern)"

text \<open>The two keywords looked for in a warning: precipitation, and high temperature.\<close>

definition keyword_precipitation :: string where
  "keyword_precipitation = [CHR 0xE9, CHR 0x99, CHR 0x8D, CHR 0xE6, CHR 0xB0, CHR 0xB4]"

definition keyword_heat :: string where
  "keyword_heat = [CHR 0xE9, CHR 0xAB, CHR 0x98, CHR 0xE6, CHR 0xB8, CHR 0xA9]"

text \<open>The advice texts, one constructor for each literal of the function.\<close>

datatype advice_text =
  BaseBeforeSowing
| TilleringAfterTransplanting
| PanicleAtDifferentiation
| GreenupInSpring
| JointingAtRising
| BaseShare40to50
| BaseShare60to70
| MatureNoFertilizer
| WinterNoFertilizer
| DeepPlacementBeforeRain
| EveningApplication

record timing_advice =
  can_fertilize :: bool
  best_timing :: "advice_text list"
  general_advice :: "advice_text list"
  weather_warning :: "string option"

text \<open>\<^verbatim>\<open>generateTimingAdvice(cropType, growthStage, weather)\<close>.\<close>

definition generateTimingAdvice :: "crop_name \<Rightarrow> stage \<Rightarrow> weather_analysis \<Rightarrow> timing_advice" where
  "generateTimingAdvice cropType stage weather =
     (let isSuitable = (suitable weather \<noteq> Some False);
          advice0 = \<lparr> can_fertilize = (isSuitable \<and> stage \<notin> {Maturity, Harvest}),
                      best_timing = [], general_advice = [], weather_warning = None \<rparr>;
          advice1 =
            (if cropType = RiceName then
               (if stage = Sowing
                then advice0\<lparr> best_timing := best_timing advice0 @ [BaseBeforeSowing],
                              general_advice := general_advice advice0 @ [BaseShare40to50] \<rparr>
                else if stage = Tillering
                then advice0\<lparr> best_timing := best_timing advice0 @ [TilleringAfterTransplanting] \<rparr>
                else if stage \<in> {Jointing, Booting}
                then advice0\<lparr> best_timing := best_timing advice0 @ [PanicleAtDifferentiation] \<rparr>
                else if stage = Maturity
                then advice0\<lparr> can_fertilize := False,
                              general_advice := general_advice advice0 @ [MatureNoFertilizer] \<rparr>
                else advice0)
             else
               (if stage = Sowing
                then advice0\<lparr> best_timing := best_timing advice0 @ [BaseBeforeSowing],
                              general_advice := general_advice advice0 @ [BaseShare60to70] \<rparr>
                else if stage = Overwintering
                then advice0\<lparr> can_fertilize := False,
                              general_advice := general_advice advice0 @ [WinterNoFertilizer] \<rparr>
                else if stage = Greenup
                then advice0\<lparr> best_timing := best_timing advice0 @ [GreenupInSpring] \<rparr>
                else if stage = Jointing
                then advice0\<lparr> best_timing := best_timing advice0 @ [JointingAtRising] \<rparr>
                else if stage = Maturity
                then advice0\<lparr> can_fertilize := False \<rparr>
                else advice0))
      in if present (warning weather) then
           advice1\<lparr> weather_warning := warning weather,
                    general_advice :=
                      general_advice advice1
                      @ (if text_includes (text_or (warning weather) []) keyword_precipitation
                         then [DeepPlacementBeforeRain] else [])
                      @ (if text_includes (text_or (warning weather) []) keyword_heat
                         then [EveningApplication] else []) \<rparr>
         else advice1)"

text \<open>
  The two calls of the timing endpoint, one after the other, with the crop name of the
  request in both (the endpoint takes a missing crop name for the name of rice).
\<close>

definition timingAdvice :: "js_runtime \<Rightarrow> jsnum \<Rightarrow> crop_name \<Rightarrow> string option \<Rightarrow> weather_analysis \<Rightarrow> timing_advice" where
  "timingAdvice rt now cropType sowingDate weather =
     generateTimingAdvice cropType (calculateGrowthStage rt now cropType sowingDate) weather"

section \<open>The stage tables of the specification\<close>

text \<open>
  The growth stages as the specification lists them, by whole days since sowing: for
  rice pre-sowing below 0, sowing below 7, seedling below 21, tillering below 45,
  jointing below 65, booting below 85, heading below 105 and maturity from 105 on; for
  wheat pre-sowing below 0, sowing below 15, tillering below 60, overwintering below
  120, green-up below 150, jointing below 180, booting below 210, heading below 240 and
  maturity from 240 on.
\<close>

definition spec_rice_stage :: "int \<Rightarrow> stage" where
  "spec_rice_stage d =
     (if d < 0 then PreSowing else if d < 7 then Sowing else if d < 21 then Seedling
      else if d < 45 then Tillering else if d < 65 then Jointing else if d < 85 then Booting
      else if d < 105 then Heading else Maturity)"

definition spec_wheat_stage :: "int \<Rightarrow> stage" where
  "spec_wheat_stage d =
     (if d < 0 then PreSowing else if d < 15 then Sowing else if d < 60 then Tillering
      else if d < 120 then Overwintering else if d < 150 then Greenup
      else if d < 180 then Jointing else if d < 210 then Booting
      else if d < 240 then Heading else Maturity)"

section \<open>Readings of the returned objects\<close>

text \<open>The integer below a pixel number, to index the samples with.\<close>

fun integer_of :: "jsnum \<Rightarrow> int" where
  "integer_of (Fin a) = \<lfloor>a\<rfloor>"
| "integer_of v = 0"

text \<open>The three ratios of a split, whatever the crop.\<close>

fun ratio_values :: "ratio_params \<Rightarrow> jsnum \<times> jsnum \<times> jsnum" where
  "ratio_values (RiceRatios b t p) = (b, t, p)"
| "ratio_values (WheatRatios b j k) = (b, j, k)"

text \<open>
  The fertilizer and nutrient masses of a recommendation, in the order of the returned
  object.
\<close>

fun masses :: "amounts \<Rightarrow> jsnum list" where
  "masses (RiceAmounts f n) =
     [urea_base f, urea_tiller f, urea_panicle f, superphosphate_base f, kcl_base f, kcl_panicle f,
      N_base n, N_tiller n, N_panicle n, P2O5_total n, K2O_total n]"
| "masses (WheatAmounts f n) =
     [formula_base f, urea_jointing f, wheat_superphosphate_base f, wheat_kcl_base f,
      wheat_N_base n, wheat_N_jointing n, wheat_P2O5_total n, wheat_K2O_total n]"

text \<open>A finite number; a finite number that is not negative; one that is not zero.\<close>

fun finite_number :: "jsnum \<Rightarrow> bool" where
  "finite_number (Fin v) = True"
| "finite_number x = False"

fun nonneg_number :: "jsnum \<Rightarrow> bool" where
  "nonneg_number (Fin v) = (0 \<le> v)"
| "nonneg_number x = False"

fun nonzero_number :: "jsnum \<Rightarrow> bool" where
  "nonzero_number (Fin v) = (v \<noteq> 0)"
| "nonzero_number x = False"

text \<open>A manual soil content that is absent or a finite number other than zero.\<close>

fun manual_ok :: "jsnum option \<Rightarrow> bool" where
  "manual_ok None = True"
| "manual_ok (Some v) = nonzero_number v"

section \<open>Example data\<close>

text \<open>
  A layer of two by two pixels over longitudes 110 to 112 and latitudes 28 to 30, whose
  third pixel holds the NODATA sentinel.
\<close>

definition example_layer :: raster_layer where
  "example_layer = loadLayer [Fin 12, Fin 34, Fin (- 9999), Fin 56] 2 2 (110, 28, 112, 30)"

text \<open>
  A layer of 93 by 29 pixels over longitudes 110 to 112 and latitudes 28 to 33, each
  pixel holding its own index. Its cell sizes 2/93 and 5/29 are not doubles, and the
  rounded quotients at \<open>lon = maxX\<close> and \<open>lat = minY\<close> come out just below 93 and 29.
\<close>

definition edge_layer :: raster_layer where
  "edge_layer = loadLayer (map (\<lambda>i. Fin (real i)) [0..<2697]) 93 29 (110, 28, 112, 33)"

text \<open>A server that has loaded no raster and no feature.\<close>

definition empty_context :: geo_context where
  "empty_context =
     \<lparr> geotiffCache = \<lparr> cache_AN = None, cache_AP = None, cache_AK = None \<rparr>,
       fertilizerFeatures = [],
       farmingFeatures = [] \<rparr>"

text \<open>
  A runtime that knows three dates of 2026, as their UTC midnights, and takes every
  other text for an invalid date.
\<close>

definition example_runtime :: js_runtime where
  "example_runtime =
     \<lparr> date_parse = (\<lambda>s. if s = ''2026-06-01'' then Fin 1780272000000
                         else if s = ''2026-06-17'' then Fin 1781654400000
                         else if s = ''2026-11-01'' then Fin 1793491200000
                         else NaN),
       get_full_year = (\<lambda>t. if t = NaN then NaN else Fin 2026),
       number_to_string = (\<lambda>n. if n = Fin 2026 then ''2026'' else ''NaN'') \<rparr>"

text \<open>A server whose only raster is the example layer, for the nitrogen content.\<close>

definition example_context :: geo_context where
  "example_context =
     \<lparr> geotiffCache = \<lparr> cache_AN = Some example_layer, cache_AP = None, cache_AK = None \<rparr>,
       fertilizerFeatures = [],
       farmingFeatures = [] \<rparr>"

text \<open>
  The arguments of a call for a target yield of 500 at the given coordinates with the
  given manual soil contents, and those of a call without coordinates.
\<close>

definition located_input :: "real \<Rightarrow> real \<Rightarrow> custom_soil option \<Rightarrow> input_params" where
  "located_input x y c =
     \<lparr> target_yield = Some (Fin 500),
       custom_soil_data = c,
       use_custom_soil = (c \<noteq> None),
       lon = Some (Fin x),
       lat = Some (Fin y),
       organic_matter = None,
       soil_ph = None,
       straw_return_amount = None,
       sowing_date = None,
       temperature_forecast = None \<rparr>"

definition manual_input :: "custom_soil \<Rightarrow> input_params" where
  "manual_input c =
     \<lparr> target_yield = Some (Fin 500),
       custom_soil_data = Some c,
       use_custom_soil = True,
       lon = None,
       lat = None,
       organic_matter = None,
       soil_ph = None,
       straw_return_amount = None,
       sowing_date = None,
       temperature_forecast = None \<rparr>"

definition manual_N :: "real \<Rightarrow> custom_soil" where
  "manual_N v = \<lparr> custom_N = Some (Fin v), custom_P = None, custom_K = None \<rparr>"

definition manual_P :: "real \<Rightarrow> custom_soil" where
  "manual_P v = \<lparr> custom_N = None, custom_P = Some (Fin v), custom_K = None \<rparr>"

text \<open>
  Three request bodies: rice at Wuhan with a manual nitrogen content of zero; rice at
  the coordinate (200, 50); and rice with a sowing date and no coordinates.
\<close>

definition zero_N_body :: calculate_body where
  "zero_N_body =
     \<lparr> body_crop = RiceName,
       body_yield = JNum (Fin 500),
       body_date = None,
       body_lon = JNum (Fin (114305 / 1000)),
       body_lat = JNum (Fin (30592 / 1000)),
       body_custom_soil_data = CustomObject \<lparr> raw_N = JNum (Fin 0), raw_P = JUndefined, raw_K = JUndefined \<rparr>,
       body_use_custom_soil = JBool True \<rparr>"

definition far_away_body :: calculate_body where
  "far_away_body =
     \<lparr> body_crop = RiceName,
       body_yield = JNum (Fin 500),
       body_date = None,
       body_lon = JNum (Fin 200),
       body_lat = JNum (Fin 50),
       body_custom_soil_data = NoCustom,
       body_use_custom_soil = JUndefined \<rparr>"

definition date_only_body :: calculate_body where
  "date_only_body =
     \<lparr> body_crop = RiceName,
       body_yield = JNum (Fin 500),
       body_date = Some ''2026-06-17'',
       body_lon = JUndefined,
       body_lat = JUndefined,
       body_custom_soil_data = NoCustom,
       body_use_custom_soil = JUndefined \<rparr>"

text \<open>The request for rice at Wuhan with a target yield of 500 and no manual values.\<close>

definition wuhan_body :: calculate_body where
  "wuhan_body =
     \<lparr> body_crop = RiceName,
       body_yield = JNum (Fin 500),
       body_date = None,
       body_lon = JNum (Fin (114305 / 1000)),
       body_lat = JNum (Fin (30592 / 1000)),
       body_custom_soil_data = NoCustom,
       body_use_custom_soil = JUndefined \<rparr>"

section \<open>Evaluation rules\<close>

lemmas js_eval = jsub_def jgt_def jge_def jmax_def jmin_def jor_def truthy_def falsy_or_def
  nullish_or_def num_of_def round1_def percent1_def signed_inf_def

lemmas binary64_eval = to_binary64_def binade_def round_even_def pow2_def compute_bitlen

lemmas balance_eval = nutrientBalance_def resolveSoil_def calculateNutrientRequirement_def
  calculateSoilSupply_def calculateStrawSupply_def riceCorr_def wheatCorr_def ph_adjustment_def
  om_impact_N_def om_impact_P_def om_impact_K_def organic_matter_impact_def Let_def

lemma NaN_left [simp]:
  "jadd NaN x = NaN" "jmul NaN x = NaN" "jdiv NaN x = NaN" "jsub NaN x = NaN"
  by (cases x; simp add: jsub_def)+

lemma NaN_right [simp]:
  "jadd x NaN = NaN" "jmul x NaN = NaN" "jdiv x NaN = NaN" "jsub x NaN = NaN"
  by (cases x; simp add: jsub_def)+

lemma NaN_unary [simp]:
  "jmax x NaN = NaN" "jmax NaN x = NaN" "jmin x NaN = NaN" "jmin NaN x = NaN" "round1 NaN = NaN"
  by (simp_all add: jmax_def jmin_def round1_def)

section \<open>The rounding\<close>

text \<open>
  Some roundings: one tenth and its negative, two ties, a number below the smallest
  double, and the first number that overflows.
\<close>

lemma to_binary64_examples:
  "to_binary64 (1 / 10) = Fin (3602879701896397 / 36028797018963968)"
  "to_binary64 (- (1 / 10)) = Fin (- (3602879701896397 / 36028797018963968))"
  "to_binary64 (2 ^ 53 + 1) = Fin (2 ^ 53)"
  "to_binary64 (2 ^ 53 + 3) = Fin (2 ^ 53 + 4)"
  "to_binary64 (3 / 2 ^ 1075) = Fin (1 / 2 ^ 1073)"
  "to_binary64 (2 ^ 1024) = PInf"
  by (simp_all add: binary64_eval signed_inf_def)

text \<open>Whole numbers up to \<open>2\<^sup>5\<^sup>3\<close> are doubles: rounding leaves them as they are.\<close>

lemma pow2_powr: "pow2 k = 2 powr (real_of_int k)"
proof (cases "0 \<le> k")
  case True
  then have "real_of_int k = real (nat k)" by simp
  then have "2 powr (real_of_int k) = 2 powr (real (nat k))" by (rule arg_cong)
  also have "\<dots> = 2 ^ nat k" by (rule powr_realpow) simp
  finally show ?thesis using True by (simp add: pow2_def)
next
  case False
  then have "real_of_int k = - real (nat (- k))" by simp
  then have "2 powr (real_of_int k) = 2 powr (- real (nat (- k)))" by (rule arg_cong)
  also have "\<dots> = 1 / 2 powr (real (nat (- k)))" by (simp add: powr_minus divide_inverse)
  also have "2 powr (real (nat (- k))) = 2 ^ nat (- k)" by (rule powr_realpow) simp
  finally show ?thesis using False by (simp add: pow2_def)
qed

lemma pow2_pos: "0 < pow2 k"
  by (simp add: pow2_powr)

lemma pow2_add: "pow2 (a + b) = pow2 a * pow2 b"
  by (simp add: pow2_powr powr_add)

lemma pow2_le_iff: "pow2 a \<le> pow2 b \<longleftrightarrow> a \<le> b"
  by (simp add: pow2_powr)

lemma pow2_less_iff: "pow2 a < pow2 b \<longleftrightarrow> a < b"
  by (simp add: pow2_powr)

lemma round_even_of_int: "round_even (of_int k) = k"
  by (simp add: round_even_def)

lemma to_binary64_not_NaN: "to_binary64 x \<noteq> NaN"
  by (simp add: to_binary64_def Let_def signed_inf_def)

lemma to_binary64_of_int:
  assumes "0 \<le> i" and "i \<le> 2 ^ 53"
  shows "to_binary64 (of_int i) = Fin (of_int i)"
proof (cases "i = 0")
  case True
  then show ?thesis by (simp add: to_binary64_def)
next
  case False
  then have pos: "0 < i" using assms by simp
  define e where "e = bitlen i - 1"
  have e0: "0 \<le> e" using pos bitlen_eq_zero_iff[of i] bitlen_nonneg[of i] by (simp add: e_def)
  have lo: "2 ^ nat e \<le> i" using bitlen_bounds[OF pos] by (simp add: e_def)
  have "(2::int) ^ nat e \<le> 2 ^ 53" using lo assms(2) by (rule order_trans)
  then have "nat e \<le> 53" by (rule power_le_imp_le_exp[rotated]) simp
  then have e53: "e \<le> 53" by simp
  have bin: "binade (of_int i) = e"
    using pos by (simp add: binade_def e_def)
  have q: "max (- 1074) (e - 52) = e - 52" using e0 by simp
  have big: "\<not> pow2 1024 \<le> \<bar>real_of_int i\<bar>"
  proof -
    have "real_of_int i \<le> 2 ^ 53" using assms by (metis of_int_le_iff of_int_numeral of_int_power)
    also have "\<dots> < (2::real) ^ 1024" by (rule power_strict_increasing) simp_all
    finally show ?thesis using pos by (simp add: pow2_def)
  qed
  have r: "of_int (round_even (of_int i / pow2 (e - 52))) * pow2 (e - 52) = real_of_int i"
  proof (cases "e \<le> 52")
    case True
    define n where "n = nat (52 - e)"
    have p: "pow2 (e - 52) = 1 / 2 ^ n"
      using True by (cases "e = 52") (simp_all add: pow2_def n_def)
    have "of_int i / pow2 (e - 52) = real_of_int (i * 2 ^ n)" by (simp add: p)
    then have "round_even (of_int i / pow2 (e - 52)) = i * 2 ^ n"
      by (simp only: round_even_of_int)
    then show ?thesis by (simp add: p)
  next
    case False
    then have e: "e = 53" using e53 by simp
    have "(2::int) ^ 53 \<le> i" using lo by (simp add: e)
    then have i: "i = 2 ^ 53" using assms by simp
    have "real_of_int i / pow2 (e - 52) = real_of_int (2 ^ 52)" by (simp add: e i pow2_def)
    then have "round_even (of_int i / pow2 (e - 52)) = 2 ^ 52"
      by (simp only: round_even_of_int)
    then show ?thesis by (simp add: e i pow2_def)
  qed
  show ?thesis
    using False big by (simp add: to_binary64_def bin q r Let_def)
qed


text \<open>
  Away from underflow and overflow a positive number rounds to a positive double of its
  own binade, so the cell size of a layer of ordinary extent is positive and finite.
\<close>

lemma binade_bounds:
  assumes "0 < x"
  shows "pow2 (binade x) \<le> x" and "x < pow2 (binade x + 1)"
proof -
  have "pow2 (binade x) \<le> x \<and> x < pow2 (binade x + 1)"
  proof (cases "1 \<le> x")
    case True
    define n where "n = \<lfloor>x\<rfloor>"
    have n: "0 < n" using True by (simp add: n_def)
    define e where "e = bitlen n - 1"
    have e0: "0 \<le> e" using n bitlen_eq_zero_iff[of n] bitlen_nonneg[of n] by (simp add: e_def)
    have bin: "binade x = e" using True assms by (simp add: binade_def e_def n_def)
    have lo: "2 ^ nat e \<le> n" and hi: "n < 2 ^ nat (e + 1)"
      using bitlen_bounds[OF n] by (simp_all add: e_def)
    have "real_of_int (2 ^ nat e) \<le> real_of_int n" using lo by (simp only: of_int_le_iff)
    also have "\<dots> \<le> x" by (simp add: n_def)
    finally have a: "pow2 e \<le> x" using e0 by (simp add: pow2_def)
    have "n + 1 \<le> 2 ^ nat (e + 1)" using hi by simp
    then have "real_of_int (n + 1) \<le> real_of_int (2 ^ nat (e + 1))" by (simp only: of_int_le_iff)
    moreover have "x < real_of_int (n + 1)" by (simp add: n_def)
    ultimately have b: "x < pow2 (e + 1)" using e0 by (simp add: pow2_def)
    show ?thesis using a b by (simp add: bin)
  next
    case False
    define y where "y = 1 / x"
    have y1: "1 < y" using False assms by (simp add: y_def)
    define m where "m = \<lceil>y\<rceil> - 1"
    have m: "0 < m" using y1 by (simp add: m_def less_ceiling_iff)
    define k where "k = bitlen m"
    have k1: "1 \<le> k" using m bitlen_eq_zero_iff[of m] bitlen_nonneg[of m] by (simp add: k_def)
    have bin: "binade x = - k" using False assms by (simp add: binade_def k_def m_def y_def)
    have lo: "2 ^ nat (k - 1) \<le> m" and hi: "m < 2 ^ nat k"
      using bitlen_bounds[OF m] by (simp_all add: k_def)
    have "y \<le> real_of_int (m + 1)" by (simp add: m_def)
    also have "\<dots> \<le> real_of_int (2 ^ nat k)" using hi by (simp only: of_int_le_iff)
    finally have yk: "y \<le> 2 ^ nat k" by simp
    have "real_of_int (2 ^ nat (k - 1)) \<le> real_of_int m" using lo by (simp only: of_int_le_iff)
    also have "\<dots> < y" by (simp add: m_def) linarith
    finally have ky: "2 ^ nat (k - 1) < y" by simp
    have x: "x = 1 / y" using assms by (simp add: y_def)
    have a: "pow2 (- k) \<le> x"
      using yk y1 k1 unfolding x by (simp add: pow2_def field_simps)
    have b: "x < pow2 (- k + 1)"
    proof (cases "k = 1")
      case True
      then show ?thesis using y1 unfolding x by (simp add: pow2_def)
    next
      case False
      then have "- k + 1 < 0" "nat (- (- k + 1)) = nat (k - 1)" using k1 by simp_all
      then show ?thesis using ky y1 unfolding x by (simp add: pow2_def field_simps)
    qed
    show ?thesis using a b by (simp add: bin)
  qed
  then show "pow2 (binade x) \<le> x" and "x < pow2 (binade x + 1)" by simp_all
qed

lemma binade_ge: "0 < x \<Longrightarrow> pow2 a \<le> x \<Longrightarrow> a \<le> binade x"
  using binade_bounds(2)[of x] pow2_less_iff[of a "binade x + 1"] by simp

lemma binade_le: "0 < x \<Longrightarrow> x \<le> pow2 b \<Longrightarrow> binade x \<le> b"
  using binade_bounds(1)[of x] pow2_le_iff[of "binade x" b] by simp

lemma round_even_bounds: "\<lfloor>y\<rfloor> \<le> round_even y" "round_even y \<le> \<lfloor>y\<rfloor> + 1"
  by (simp_all add: round_even_def Let_def)

lemma to_binary64_normal:
  assumes "0 < x" and "- 1022 \<le> binade x" and "binade x \<le> 1022"
  shows "\<exists>r. to_binary64 x = Fin r \<and> pow2 (binade x) \<le> r \<and> r \<le> pow2 (binade x + 1)"
proof -
  define e where "e = binade x"
  define y where "y = x / pow2 (e - 52)"
  define k where "k = round_even y"
  have q: "max (- 1074) (binade x - 52) = e - 52" using assms(2) by (simp add: e_def)
  have "e = 52 + (e - 52)" and "e + 1 = 53 + (e - 52)" by simp_all
  then have p: "pow2 e = pow2 52 * pow2 (e - 52)" "pow2 (e + 1) = pow2 53 * pow2 (e - 52)"
    using pow2_add[of 52 "e - 52"] pow2_add[of 53 "e - 52"] by (simp_all only:)
  have ylo: "pow2 52 \<le> y"
    using binade_bounds(1)[OF assms(1)] pow2_pos[of "e - 52"]
    by (simp add: y_def e_def[symmetric] p pos_le_divide_eq)
  have yhi: "y < pow2 53"
    using binade_bounds(2)[OF assms(1)] pow2_pos[of "e - 52"]
    by (simp add: y_def e_def[symmetric] p pos_divide_less_eq)
  have "real_of_int (2 ^ 52) \<le> y" using ylo by (simp add: pow2_def)
  then have "2 ^ 52 \<le> \<lfloor>y\<rfloor>" by (simp only: le_floor_iff)
  then have klo: "2 ^ 52 \<le> k" unfolding k_def using round_even_bounds(1)[of y] by linarith
  have "y < real_of_int (2 ^ 53)" using yhi by (simp add: pow2_def)
  then have "\<lfloor>y\<rfloor> < 2 ^ 53" by (simp only: floor_less_iff)
  then have khi: "k \<le> 2 ^ 53" unfolding k_def using round_even_bounds(2)[of y] by linarith
  define r where "r = real_of_int k * pow2 (e - 52)"
  have "real_of_int (2 ^ 52) \<le> real_of_int k" using klo by (simp only: of_int_le_iff)
  then have "pow2 52 \<le> real_of_int k" by (simp add: pow2_def)
  then have rlo: "pow2 e \<le> r"
    using pow2_pos[of "e - 52"] by (simp add: r_def p)
  have "real_of_int k \<le> real_of_int (2 ^ 53)" using khi by (simp only: of_int_le_iff)
  then have "real_of_int k \<le> pow2 53" by (simp add: pow2_def)
  then have rhi: "r \<le> pow2 (e + 1)"
    using pow2_pos[of "e - 52"] by (simp add: r_def p)
  have rpos: "0 < r" using rlo pow2_pos[of e] by simp
  have "pow2 (e + 1) < pow2 1024" using assms(3) by (simp only: pow2_less_iff e_def)
  then have fin: "\<not> pow2 1024 \<le> \<bar>r\<bar>" using rhi rpos by simp
  have "to_binary64 x = Fin r"
    using assms(1) fin unfolding to_binary64_def q Let_def
    by (simp add: r_def k_def y_def)
  then show ?thesis using rlo rhi by (auto simp add: e_def)
qed

lemma cell_size_positive:
  fixes a b :: real and n :: nat
  assumes "0 < n" and "n \<le> 2 ^ 53" and "pow2 (- 500) \<le> b - a" and "b - a \<le> pow2 500"
  shows "\<exists>c. rounded (jdiv (rounded (jsub (Fin b) (Fin a))) (Fin (real n))) = Fin c \<and> 0 < c"
proof -
  have pos: "0 < b - a" using assms(3) pow2_pos[of "- 500"] by simp
  have e1: "- 500 \<le> binade (b - a)" using pos assms(3) by (rule binade_ge)
  have e2: "binade (b - a) \<le> 500" using pos assms(4) by (rule binade_le)
  obtain d where d: "to_binary64 (b - a) = Fin d" "pow2 (binade (b - a)) \<le> d" "d \<le> pow2 (binade (b - a) + 1)"
    using to_binary64_normal[OF pos] e1 e2 by auto
  have dlo: "pow2 (- 500) \<le> d"
    using d(2) e1 pow2_le_iff[of "- 500" "binade (b - a)"] by simp
  have dhi: "d \<le> pow2 501"
    using d(3) e2 pow2_le_iff[of "binade (b - a) + 1" 501] by simp
  have npos: "0 < real n" using assms(1) by simp
  have n1: "1 \<le> real n" using assms(1) by simp
  have nhi: "real n \<le> pow2 53" using assms(2) by (simp add: pow2_def)
  have "pow2 (- 553) * real n \<le> pow2 (- 553) * pow2 53"
    using nhi pow2_pos[of "- 553"] by simp
  also have "\<dots> = pow2 (- 500)" using pow2_add[of "- 553" 53] by simp
  finally have qlo: "pow2 (- 553) \<le> d / real n"
    using dlo npos by (simp add: pos_le_divide_eq)
  have "d / real n \<le> d" using n1 dlo pow2_pos[of "- 500"] by (simp add: field_simps)
  then have qhi: "d / real n \<le> pow2 501" using dhi by simp
  have qpos: "0 < d / real n" using qlo pow2_pos[of "- 553"] by simp
  have f1: "- 553 \<le> binade (d / real n)" using qpos qlo by (rule binade_ge)
  have f2: "binade (d / real n) \<le> 501" using qpos qhi by (rule binade_le)
  obtain c where c: "to_binary64 (d / real n) = Fin c" "pow2 (binade (d / real n)) \<le> c"
    using to_binary64_normal[OF qpos] f1 f2 by auto
  have "0 < c" using c(2) pow2_pos[of "binade (d / real n)"] by simp
  then show ?thesis using c(1) d(1) npos by (simp add: jsub_def)
qed

section \<open>The sampler\<close>

lemma idx_in_range:
  fixes row col :: int and w h :: nat
  assumes "0 \<le> col" "col < int w" "0 \<le> row" "row < int h"
  shows "nat (row * int w + col) < w * h"
proof -
  have "row + 1 \<le> int h" using assms by simp
  then have "(row + 1) * int w \<le> int h * int w"
    by (rule mult_right_mono) simp
  then have "row * int w + col < int h * int w"
    using assms by (simp add: algebra_simps)
  then have "row * int w + col < int (w * h)" by (simp add: mult.commute)
  then show ?thesis using assms by (simp add: nat_less_iff)
qed

lemma js_index_int:
  "0 \<le> i \<Longrightarrow> nat i < length xs \<Longrightarrow> js_index xs (Fin (of_int i)) = Some (xs ! nat i)"
  by (simp add: js_index_def)

text \<open>The index arithmetic of the sampler is exact on a grid of at most \<open>2\<^sup>5\<^sup>3\<close> pixels.\<close>

lemma sampler_index:
  fixes r c :: int and w h :: nat
  assumes "0 \<le> c" "c < int w" "0 \<le> r" "r < int h" "w * h \<le> 2 ^ 53"
  shows "rounded (jadd (rounded (jmul (Fin (of_int r)) (Fin (real w)))) (Fin (of_int c)))
         = Fin (of_int (r * int w + c))"
proof -
  have "nat (r * int w + c) < w * h" using assms(1-4) by (rule idx_in_range)
  then have "nat (r * int w + c) \<le> 2 ^ 53" using assms(5) by simp
  then have hi: "r * int w + c \<le> 2 ^ 53" by simp
  have lo: "0 \<le> r * int w" using assms by simp
  have hi': "r * int w \<le> 2 ^ 53" using hi assms(1) by simp
  have prod: "real_of_int r * real w = real_of_int (r * int w)" by simp
  have sum: "real_of_int (r * int w) + real_of_int c = real_of_int (r * int w + c)" by simp
  have "rounded (jmul (Fin (of_int r)) (Fin (real w))) = Fin (of_int (r * int w))"
    unfolding jmul.simps rounded.simps prod using lo hi' by (rule to_binary64_of_int)
  moreover have "to_binary64 (real_of_int (r * int w + c)) = Fin (of_int (r * int w + c))"
    using lo assms(1) hi by (intro to_binary64_of_int) simp_all
  ultimately show ?thesis
    unfolding jadd.simps rounded.simps sum by (simp only: jadd.simps rounded.simps sum)
qed

text \<open>
  With a positive finite cell size and a coordinate that is not NaN, the pixel numbers
  are not NaN, so the two range tests of the sampler decide whether they are on the grid.
\<close>

lemma rounded_not_NaN: "v \<noteq> NaN \<Longrightarrow> rounded v \<noteq> NaN"
  by (cases v) (simp_all add: to_binary64_not_NaN)

lemma jsub_not_NaN:
  "v \<noteq> NaN \<Longrightarrow> jsub v (Fin a) \<noteq> NaN" "v \<noteq> NaN \<Longrightarrow> jsub (Fin a) v \<noteq> NaN"
  by (cases v; simp add: jsub_def)+

lemma jdiv_cell_not_NaN: "v \<noteq> NaN \<Longrightarrow> 0 < c \<Longrightarrow> jdiv v (Fin c) \<noteq> NaN"
  by (cases v) (simp_all add: signed_inf_def)

lemma jfloor_not_NaN: "v \<noteq> NaN \<Longrightarrow> jfloor v \<noteq> NaN"
  by (cases v) simp_all

lemma jfloor_Fin: "jfloor v = Fin a \<Longrightarrow> a = of_int \<lfloor>a\<rfloor>"
  by (cases v) auto

lemma pixel_number_not_NaN:
  assumes "a \<noteq> NaN" and "0 < c"
  shows "jfloor (rounded (jdiv (rounded a) (Fin c))) \<noteq> NaN"
  using assms by (intro jfloor_not_NaN rounded_not_NaN jdiv_cell_not_NaN)

lemma on_grid_iff:
  assumes "v \<noteq> NaN"
  shows "(jlt v (Fin 0) \<or> jge v (Fin b)) \<longleftrightarrow> \<not> (jle (Fin 0) v \<and> jlt v (Fin b))"
  using assms by (cases v) (auto simp add: jge_def)

lemma sampler_equation:
  fixes lon lat :: jsnum and w h :: nat
  assumes "0 < w" and "0 < h" and "length samples = w * h" and "w * h \<le> 2 ^ 53"
    and cw: "cellWidth (loadLayer samples w h (x0, y0, x1, y1)) = Fin cw" and "0 < cw"
    and ch: "cellHeight (loadLayer samples w h (x0, y0, x1, y1)) = Fin ch" and "0 < ch"
    and "lon \<noteq> NaN" and "lat \<noteq> NaN"
  defines "col \<equiv> jfloor (rounded (jdiv (rounded (jsub lon (Fin x0))) (Fin cw)))"
    and "row \<equiv> jfloor (rounded (jdiv (rounded (jsub (Fin y1) lat)) (Fin ch)))"
  defines "idx \<equiv> nat (integer_of row * int w + integer_of col)"
  shows "extractValueFromGeoTIFF lon lat (Some (loadLayer samples w h (x0, y0, x1, y1))) =
           (if jlt lon (Fin x0) \<or> jgt lon (Fin x1) \<or> jlt lat (Fin y0) \<or> jgt lat (Fin y1) then PNull
            else if \<not> (jle (Fin 0) col \<and> jlt col (Fin (real w)) \<and> jle (Fin 0) row \<and> jlt row (Fin (real h)))
            then PNull
            else if isNoData (samples ! idx) then PNull
            else PValue (samples ! idx))"
    and "jle (Fin 0) col \<and> jlt col (Fin (real w)) \<and> jle (Fin 0) row \<and> jlt row (Fin (real h))
         \<Longrightarrow> idx < length samples \<and> col = Fin (of_int (integer_of col)) \<and> row = Fin (of_int (integer_of row))"
proof -
  let ?cache = "loadLayer samples w h (x0, y0, x1, y1)"
  have fields: "data ?cache = samples" "width ?cache = w" "height ?cache = h"
    "minX ?cache = x0" "maxX ?cache = x1" "minY ?cache = y0" "maxY ?cache = y1"
    by (simp_all add: loadLayer_def)
  have colN: "col \<noteq> NaN"
    unfolding col_def using assms by (intro pixel_number_not_NaN jsub_not_NaN)
  have rowN: "row \<noteq> NaN"
    unfolding row_def using assms by (intro pixel_number_not_NaN jsub_not_NaN)
  have grid: "(jlt col (Fin 0) \<or> jge col (Fin (real w)) \<or> jlt row (Fin 0) \<or> jge row (Fin (real h)))
              \<longleftrightarrow> \<not> (jle (Fin 0) col \<and> jlt col (Fin (real w)) \<and> jle (Fin 0) row \<and> jlt row (Fin (real h)))"
    using on_grid_iff[OF colN, of "real w"] on_grid_iff[OF rowN, of "real h"] by blast
  have inside: "idx < length samples \<and> col = Fin (of_int (integer_of col)) \<and> row = Fin (of_int (integer_of row))
       \<and> js_index samples (rounded (jadd (rounded (jmul row (Fin (real w)))) col)) = Some (samples ! idx)"
    if on: "jle (Fin 0) col \<and> jlt col (Fin (real w)) \<and> jle (Fin 0) row \<and> jlt row (Fin (real h))"
  proof -
    obtain a where a: "col = Fin a" using on colN by (cases col) simp_all
    obtain b where b: "row = Fin b" using on rowN by (cases row) simp_all
    have ai: "a = of_int \<lfloor>a\<rfloor>" using a unfolding col_def by (rule jfloor_Fin)
    have bi: "b = of_int \<lfloor>b\<rfloor>" using b unfolding row_def by (rule jfloor_Fin)
    define c where "c = \<lfloor>a\<rfloor>"
    define r where "r = \<lfloor>b\<rfloor>"
    have colc: "col = Fin (of_int c)" and rowr: "row = Fin (of_int r)"
      using a ai b bi by (simp_all add: c_def r_def)
    have rng: "0 \<le> c" "c < int w" "0 \<le> r" "r < int h"
      using on unfolding colc rowr by simp_all
    have ic: "integer_of col = c" and ir: "integer_of row = r"
      by (simp_all add: colc rowr)
    have lt: "nat (r * int w + c) < length samples"
      using idx_in_range[OF rng] assms(3) by simp
    have nonneg: "0 \<le> r * int w + c" using rng by simp
    have "js_index samples (rounded (jadd (rounded (jmul row (Fin (real w)))) col))
          = js_index samples (Fin (of_int (r * int w + c)))"
      unfolding colc rowr using sampler_index[OF rng assms(4)] by simp
    also have "\<dots> = Some (samples ! nat (r * int w + c))"
      using nonneg lt by (rule js_index_int)
    finally show ?thesis
      using lt colc rowr by (simp add: idx_def ic ir)
  qed
  show "extractValueFromGeoTIFF lon lat (Some ?cache) =
           (if jlt lon (Fin x0) \<or> jgt lon (Fin x1) \<or> jlt lat (Fin y0) \<or> jgt lat (Fin y1) then PNull
            else if \<not> (jle (Fin 0) col \<and> jlt col (Fin (real w)) \<and> jle (Fin 0) row \<and> jlt row (Fin (real h)))
            then PNull
            else if isNoData (samples ! idx) then PNull
            else PValue (samples ! idx))"
    using inside grid
    by (simp add: extractValueFromGeoTIFF_def fields cw ch Let_def col_def[symmetric] row_def[symmetric])
  show "idx < length samples \<and> col = Fin (of_int (integer_of col)) \<and> row = Fin (of_int (integer_of row))"
    if "jle (Fin 0) col \<and> jlt col (Fin (real w)) \<and> jle (Fin 0) row \<and> jlt row (Fin (real h))"
    using inside[OF that] by simp
qed


text \<open>
  A coordinate that is infinite lies outside every bounding box. The coordinates the
  resolver passes to the sampler are \<^verbatim>\<open>parseFloat(x) || fallback\<close>, which is never
  NaN, and the request handler rejects a NaN coordinate before it calls the resolver.
\<close>

lemma sampler_infinite:
  fixes lon lat :: jsnum
  assumes "lon \<in> {PInf, NInf} \<or> lat \<in> {PInf, NInf}"
  shows "extractValueFromGeoTIFF lon lat (Some cache) = PNull"
  using assms by (cases lon; cases lat) (auto simp add: extractValueFromGeoTIFF_def jgt_def)

lemma resolver_coordinate_not_NaN: "falsy_or v (Fin d) \<noteq> NaN"
  by (cases v) (auto simp add: falsy_or_def jor_def truthy_def)

text \<open>A NaN coordinate is never read as a sample.\<close>

lemma sampler_NaN:
  fixes lon lat :: jsnum
  shows "extractValueFromGeoTIFF NaN lat (Some cache) \<in> {PNull, PUndefined}"
    and "extractValueFromGeoTIFF lon NaN (Some cache) \<in> {PNull, PUndefined}"
  by (simp_all add: extractValueFromGeoTIFF_def Let_def js_index_def)

text \<open>
  A layer whose bounding box is between \<open>2\<^sup>-\<^sup>5\<^sup>0\<^sup>0\<close> and \<open>2\<^sup>5\<^sup>0\<^sup>0\<close> wide and high has positive
  finite cell sizes.
\<close>

lemma ordinary_layer_cells:
  fixes w h :: nat
  assumes "0 < w" and "w \<le> 2 ^ 53" and "0 < h" and "h \<le> 2 ^ 53"
    and "pow2 (- 500) \<le> x1 - x0" and "x1 - x0 \<le> pow2 500"
    and "pow2 (- 500) \<le> y1 - y0" and "y1 - y0 \<le> pow2 500"
  shows "\<exists>cw ch. cellWidth (loadLayer samples w h (x0, y0, x1, y1)) = Fin cw \<and> 0 < cw
                \<and> cellHeight (loadLayer samples w h (x0, y0, x1, y1)) = Fin ch \<and> 0 < ch"
  using cell_size_positive[OF assms(1,2,5,6)] cell_size_positive[OF assms(3,4,7,8)]
  by (auto simp add: loadLayer_def)

text \<open>The cell sizes and the edge pixel numbers of the two example layers.\<close>

lemma example_layer_cells:
  "cellWidth (loadLayer [Fin 12, Fin 34, Fin (- 9999), Fin 56] 2 2 (110, 28, 112, 30)) = Fin 1"
  "cellHeight (loadLayer [Fin 12, Fin 34, Fin (- 9999), Fin 56] 2 2 (110, 28, 112, 30)) = Fin 1"
  by (simp_all add: loadLayer_def jsub_def binary64_eval)

lemma edge_layer_cells:
  "cellWidth (loadLayer (map (\<lambda>i. Fin (real i)) [0..<2697]) 93 29 (110, 28, 112, 33))
   = Fin (3099251356470019 / 144115188075855872)"
  "cellHeight (loadLayer (map (\<lambda>i. Fin (real i)) [0..<2697]) 93 29 (110, 28, 112, 33))
   = Fin (1552965388748447 / 9007199254740992)"
  by (simp_all add: loadLayer_def jsub_def binary64_eval del: upt_rec_numeral)

lemma edge_layer_pixels:
  "jfloor (rounded (jdiv (rounded (jsub (Fin 110) (Fin 110))) (Fin (3099251356470019 / 144115188075855872)))) = Fin 0"
  "jfloor (rounded (jdiv (rounded (jsub (Fin 112) (Fin 110))) (Fin (3099251356470019 / 144115188075855872)))) = Fin 92"
  "jfloor (rounded (jdiv (rounded (jsub (Fin 33) (Fin 33))) (Fin (1552965388748447 / 9007199254740992)))) = Fin 0"
  "jfloor (rounded (jdiv (rounded (jsub (Fin 33) (Fin 28))) (Fin (1552965388748447 / 9007199254740992)))) = Fin 28"
  by (simp_all add: jsub_def binary64_eval)

text \<open>
  Claim C4, as the code has it. For a layer as the loader builds it (positive pixel counts,
  \<open>width * height\<close> samples, at most \<open>2\<^sup>5\<^sup>3\<close> of them, and cell sizes that came out
  positive and finite) and every coordinate that is not NaN, the sampler returns
  \<^verbatim>\<open>null\<close> when the coordinate is outside the bounding box, when the column
  \<open>floor((lon - minX) / cellWidth)\<close> or the row \<open>floor((maxY - lat) / cellHeight)\<close>, as
  the double arithmetic computes them, is outside the grid, or when the stored number is
  NODATA (below -9999, above 100000, or one of the sentinels -9999 and -32768);
  otherwise it returns the sample at \<open>row * width + col\<close>. Whenever column and row are
  on the grid they are whole numbers and the index is inside the array, so the sampler
  never reads \<^verbatim>\<open>undefined\<close>, on the four edges of the bounding box as elsewhere;
  \<open>lon = minX\<close> gives column 0 and \<open>lat = maxY\<close> gives row 0.
\<close>

theorem extractValueFromGeoTIFF_sampling:
  fixes lon lat :: jsnum and w h :: nat
  assumes "0 < w" and "0 < h" and "length samples = w * h" and "w * h \<le> 2 ^ 53"
    and "cellWidth (loadLayer samples w h (x0, y0, x1, y1)) = Fin cw" and "0 < cw"
    and "cellHeight (loadLayer samples w h (x0, y0, x1, y1)) = Fin ch" and "0 < ch"
    and "lon \<noteq> NaN" and "lat \<noteq> NaN"
  shows "let cache = loadLayer samples w h (x0, y0, x1, y1);
             col = jfloor (rounded (jdiv (rounded (jsub lon (Fin x0))) (cellWidth cache)));
             row = jfloor (rounded (jdiv (rounded (jsub (Fin y1) lat)) (cellHeight cache)));
             outside = (jlt lon (Fin x0) \<or> jgt lon (Fin x1) \<or> jlt lat (Fin y0) \<or> jgt lat (Fin y1));
             on_grid = (jle (Fin 0) col \<and> jlt col (Fin (real w)) \<and> jle (Fin 0) row \<and> jlt row (Fin (real h)));
             idx = nat (integer_of row * int w + integer_of col)
         in extractValueFromGeoTIFF lon lat (Some cache) =
              (if outside \<or> \<not> on_grid then PNull
               else if isNoData (samples ! idx) then PNull
               else PValue (samples ! idx))
            \<and> (on_grid \<longrightarrow> idx < length samples \<and> col = Fin (of_int (integer_of col))
                                              \<and> row = Fin (of_int (integer_of row)))
            \<and> extractValueFromGeoTIFF lon lat (Some cache) \<noteq> PUndefined
            \<and> (lon = Fin x0 \<longrightarrow> col = Fin 0)
            \<and> (lat = Fin y1 \<longrightarrow> row = Fin 0)
            \<and> (isNoData (Fin v) \<longleftrightarrow> v < - 9999 \<or> 100000 < v \<or> v = - 9999 \<or> v = - 32768)"
proof -
  note eq = sampler_equation[OF assms]
  have defined: "extractValueFromGeoTIFF lon lat (Some (loadLayer samples w h (x0, y0, x1, y1))) \<noteq> PUndefined"
    unfolding eq(1) by simp
  have left: "jfloor (rounded (jdiv (rounded (jsub (Fin x0) (Fin x0))) (Fin cw))) = Fin 0"
    using assms(6) by (simp add: jsub_def to_binary64_def)
  have top: "jfloor (rounded (jdiv (rounded (jsub (Fin y1) (Fin y1))) (Fin ch))) = Fin 0"
    using assms(8) by (simp add: jsub_def to_binary64_def)
  have nodata: "isNoData (Fin v) \<longleftrightarrow> v < - 9999 \<or> 100000 < v \<or> v = - 9999 \<or> v = - 32768"
    by (simp add: isNoData_def jgt_def)
  show ?thesis
    unfolding Let_def assms(5,7)
    using eq(1) eq(2) defined left top nodata by auto
qed

theorem extractValueFromGeoTIFF_sampling_witness:
  "extractValueFromGeoTIFF (Fin (1105 / 10)) (Fin (295 / 10)) (Some example_layer) = PValue (Fin 12)
   \<and> extractValueFromGeoTIFF (Fin (1105 / 10)) (Fin (285 / 10)) (Some example_layer) = PNull
   \<and> extractValueFromGeoTIFF (Fin 112) (Fin (295 / 10)) (Some example_layer) = PNull
   \<and> extractValueFromGeoTIFF (Fin (1105 / 10)) (Fin 28) (Some example_layer) = PNull
   \<and> extractValueFromGeoTIFF (Fin 110) (Fin 30) (Some example_layer) = PValue (Fin 12)
   \<and> extractValueFromGeoTIFF PInf (Fin 29) (Some example_layer) = PNull
   \<and> extractValueFromGeoTIFF (Fin 112) (Fin 33) (Some edge_layer) = PValue (Fin 92)
   \<and> extractValueFromGeoTIFF (Fin 110) (Fin 28) (Some edge_layer) = PValue (Fin 2604)
   \<and> extractValueFromGeoTIFF (Fin 112) (Fin 28) (Some edge_layer) = PValue (Fin 2696)"
proof -
  have len: "length [Fin 12, Fin 34, Fin (- 9999), Fin 56] = 2 * 2" by simp
  have len': "length (map (\<lambda>i. Fin (real i)) [0..<2697]) = 93 * 29"
    by (simp del: upt_rec_numeral)
  note small = extractValueFromGeoTIFF_sampling[OF _ _ len _ example_layer_cells(1) _ example_layer_cells(2)]
  note edge = extractValueFromGeoTIFF_sampling[OF _ _ len' _ edge_layer_cells(1) _ edge_layer_cells(2)]
  note ev = Let_def example_layer_def example_layer_cells isNoData_def jsub_def jgt_def binary64_eval
  note ev' = Let_def edge_layer_def edge_layer_cells edge_layer_pixels isNoData_def jgt_def
  have a: "extractValueFromGeoTIFF (Fin (1105 / 10)) (Fin (295 / 10)) (Some example_layer) = PValue (Fin 12)"
    using small[of "Fin (1105 / 10)" "Fin (295 / 10)"] by (simp add: ev)
  have b: "extractValueFromGeoTIFF (Fin (1105 / 10)) (Fin (285 / 10)) (Some example_layer) = PNull"
    using small[of "Fin (1105 / 10)" "Fin (285 / 10)"] by (simp add: ev)
  have c: "extractValueFromGeoTIFF (Fin 112) (Fin (295 / 10)) (Some example_layer) = PNull"
    using small[of "Fin 112" "Fin (295 / 10)"] by (simp add: ev)
  have d: "extractValueFromGeoTIFF (Fin (1105 / 10)) (Fin 28) (Some example_layer) = PNull"
    using small[of "Fin (1105 / 10)" "Fin 28"] by (simp add: ev)
  have e: "extractValueFromGeoTIFF (Fin 110) (Fin 30) (Some example_layer) = PValue (Fin 12)"
    using small[of "Fin 110" "Fin 30"] by (simp add: ev)
  have f: "extractValueFromGeoTIFF PInf (Fin 29) (Some example_layer) = PNull"
    using small[of PInf "Fin 29"] by (simp add: ev)
  have g: "extractValueFromGeoTIFF (Fin 112) (Fin 33) (Some edge_layer) = PValue (Fin 92)"
    using edge[of "Fin 112" "Fin 33"] by (simp add: ev' del: upt_rec_numeral)
  have h: "extractValueFromGeoTIFF (Fin 110) (Fin 28) (Some edge_layer) = PValue (Fin 2604)"
    using edge[of "Fin 110" "Fin 28"] by (simp add: ev' del: upt_rec_numeral)
  have i: "extractValueFromGeoTIFF (Fin 112) (Fin 28) (Some edge_layer) = PValue (Fin 2696)"
    using edge[of "Fin 112" "Fin 28"] by (simp add: ev' del: upt_rec_numeral)
  show ?thesis
    using a b c d e f g h i by simp
qed

text \<open>
  The claim as stated fails at a NaN coordinate: with a NaN longitude inside the
  latitudes of the example layer every comparison of the sampler is false, the index is
  NaN and the sampler returns \<^verbatim>\<open>undefined\<close>, which is neither \<^verbatim>\<open>null\<close> nor a sample.
\<close>

theorem extractValueFromGeoTIFF_NaN_counterexample:
  "extractValueFromGeoTIFF NaN (Fin 29) (Some example_layer) = PUndefined
   \<and> extractValueFromGeoTIFF NaN (Fin 29) (Some example_layer)
       \<notin> {PNull, PValue (Fin 12), PValue (Fin 34), PValue (Fin (- 9999)), PValue (Fin 56)}"
  by (simp add: extractValueFromGeoTIFF_def example_layer_def loadLayer_def Let_def js_index_def
        jsub_def jgt_def jge_def binary64_eval)

section \<open>The split ratios\<close>

lemma clamp01_unit: "0 \<le> x \<Longrightarrow> x \<le> 1 \<Longrightarrow> clamp01 (Fin x) = Fin x"
  by (simp add: clamp01_def jmax_def jmin_def)

lemma invalid_date_days: "date_parse rt sowingDate = NaN \<Longrightarrow> sowingDaysDiff rt sowingDate cropType = NaN"
  by (simp add: sowingDaysDiff_def Let_def jsub_def)

text \<open>
  Claim C5. For both crops, whatever the sowing date (so in each of the three regimes
  of the day difference, and also when the difference is no number) and whatever the
  temperature forecast, the three ratios are numbers in \<open>[0, 1]\<close> whose sum differs
  from 1 by at most \<open>10\<^sup>-\<^sup>6\<close>.
\<close>

theorem adjustFertilizerRatio_sum:
  "case ratio_values (adjustFertilizerRatio rt sowingDate cropType temp) of
     (Fin b, Fin m, Fin l) \<Rightarrow>
        \<bar>b + m + l - 1\<bar> \<le> 1 / 10 ^ 6
        \<and> 0 \<le> b \<and> b \<le> 1 \<and> 0 \<le> m \<and> m \<le> 1 \<and> 0 \<le> l \<and> l \<le> 1
   | _ \<Rightarrow> False"
  by (cases cropType) (simp_all add: adjustFertilizerRatio_def Let_def clamp01_unit)

theorem adjustFertilizerRatio_sum_witness:
  "adjustFertilizerRatio example_runtime ''2026-06-01'' Rice (Fin 15)
     = RiceRatios (Fin (45 / 100)) (Fin (25 / 100)) (Fin (30 / 100))
   \<and> (case ratio_values (adjustFertilizerRatio example_runtime ''2026-06-01'' Rice (Fin 15)) of
         (Fin b, Fin m, Fin l) \<Rightarrow>
            \<bar>b + m + l - 1\<bar> \<le> 1 / 10 ^ 6
            \<and> 0 \<le> b \<and> b \<le> 1 \<and> 0 \<le> m \<and> m \<le> 1 \<and> 0 \<le> l \<and> l \<le> 1
       | _ \<Rightarrow> False)"
proof -
  have days: "sowingDaysDiff example_runtime ''2026-06-01'' Rice = Fin (- 16)"
    by (simp add: sowingDaysDiff_def example_runtime_def Let_def jsub_def)
  have "adjustFertilizerRatio example_runtime ''2026-06-01'' Rice (Fin 15)
          = RiceRatios (Fin (45 / 100)) (Fin (25 / 100)) (Fin (30 / 100))"
    by (simp add: adjustFertilizerRatio_def days clamp01_unit)
  then show ?thesis
    using adjustFertilizerRatio_sum[of example_runtime "''2026-06-01''" Rice "Fin 15"] by simp
qed

text \<open>
  Without a cold forecast, a sowing date that is an invalid date gives the fractions of
  the normal regime.
\<close>

lemma adjustFertilizerRatio_invalid_date_mild:
  assumes "date_parse rt sowingDate = NaN"
  shows "\<not> jlt temp (Fin 20) \<Longrightarrow>
           adjustFertilizerRatio rt sowingDate Rice temp
             = RiceRatios (Fin (50 / 100)) (Fin (25 / 100)) (Fin (25 / 100))"
    and "\<not> jlt temp (Fin 10) \<Longrightarrow>
           adjustFertilizerRatio rt sowingDate Wheat temp
             = WheatRatios (Fin (65 / 100)) (Fin (25 / 100)) (Fin (10 / 100))"
  using assms by (simp_all add: adjustFertilizerRatio_def invalid_date_days jgt_def clamp01_unit)

text \<open>
  Claim C7, at the input where the function departs from it. A sowing date that does
  not parse is an invalid date, the day difference is no number, and the function goes
  on in the normal regime: with a forecast below the cold threshold of the crop it
  returns the normal fractions with the cold adjustment applied (rice 0.55, 0.25, 0.20
  at 15 degrees; wheat 0.70, 0.25, 0.05 at 5 degrees), not the unmodified ones.
\<close>

theorem adjustFertilizerRatio_invalid_date_cold:
  assumes "date_parse rt sowingDate = NaN"
  shows "adjustFertilizerRatio rt sowingDate Rice (Fin 15)
           = RiceRatios (Fin (55 / 100)) (Fin (25 / 100)) (Fin (20 / 100))
         \<and> adjustFertilizerRatio rt sowingDate Wheat (Fin 5)
           = WheatRatios (Fin (70 / 100)) (Fin (25 / 100)) (Fin (5 / 100))"
  using assms by (simp add: adjustFertilizerRatio_def invalid_date_days jgt_def clamp01_unit)

theorem adjustFertilizerRatio_invalid_date_cold_witness:
  "date_parse example_runtime ''not-a-date'' = NaN
   \<and> adjustFertilizerRatio example_runtime ''not-a-date'' Rice (Fin 15)
       = RiceRatios (Fin (55 / 100)) (Fin (25 / 100)) (Fin (20 / 100))
   \<and> adjustFertilizerRatio example_runtime ''not-a-date'' Rice (Fin 15)
       \<noteq> RiceRatios (Fin (50 / 100)) (Fin (25 / 100)) (Fin (25 / 100))
   \<and> adjustFertilizerRatio example_runtime ''not-a-date'' Wheat (Fin 5)
       = WheatRatios (Fin (70 / 100)) (Fin (25 / 100)) (Fin (5 / 100))"
proof -
  have invalid: "date_parse example_runtime ''not-a-date'' = NaN"
    by (simp add: example_runtime_def)
  show ?thesis
    using invalid adjustFertilizerRatio_invalid_date_cold[OF invalid] by simp
qed

section \<open>The soil supply\<close>

text \<open>
  Claim C3. Whatever the soil record, the supply of each nutrient is the soil content
  times 0.15 times the correction factor times the organic-matter factor, and for
  phosphorus times the pH factor. For rice the correction factors are
  \<open>(3.2164 + 4799.9239 / N) / 100\<close>, \<open>(17.4898 + 2235.9674 / P) / 100\<close> and
  \<open>(10.7412 + 6147.1032 / K) / 100\<close>; for wheat they are the exponentials of the
  specification. The organic-matter factor is \<open>1 + slope * (om - 20)\<close>, which is 1 at
  \<open>om = 20\<close>; the pH factor is 1 for a pH from 6 to 7 and 0.7 otherwise. For finite
  nonzero rice contents the supplies are the finite numbers these formulas give over
  the reals.
\<close>

theorem calculateSoilSupply_formula:
  "calculateSoilSupply soilN soilP soilK om ph Rice =
     (jmul (jmul (jmul soilN (Fin 0.15)) (jdiv (jadd (Fin 3.2164) (jdiv (Fin 4799.9239) soilN)) (Fin 100)))
           (jadd (Fin 1) (jmul (Fin 0.015) (jsub om (Fin 20)))),
      jmul (jmul (jmul (jmul soilP (Fin 0.15)) (jdiv (jadd (Fin 17.4898) (jdiv (Fin 2235.9674) soilP)) (Fin 100)))
                 (jadd (Fin 1) (jmul (Fin 0.01) (jsub om (Fin 20)))))
           (if jle (Fin 6) ph \<and> jle ph (Fin 7) then Fin 1 else Fin 0.7),
      jmul (jmul (jmul soilK (Fin 0.15)) (jdiv (jadd (Fin 10.7412) (jdiv (Fin 6147.1032) soilK)) (Fin 100)))
           (jadd (Fin 1) (jmul (Fin 0.008) (jsub om (Fin 20)))),
      \<lparr> impact_N = jadd (Fin 1) (jmul (Fin 0.015) (jsub om (Fin 20))),
        impact_P = jadd (Fin 1) (jmul (Fin 0.01) (jsub om (Fin 20))),
        impact_K = jadd (Fin 1) (jmul (Fin 0.008) (jsub om (Fin 20))),
        ph_impact_on_p = (if jle (Fin 6) ph \<and> jle ph (Fin 7) then Fin 1 else Fin 0.7) \<rparr>)
   \<and> calculateSoilSupply soilN soilP soilK om ph Wheat =
     (jmul (jmul (jmul soilN (Fin 0.15)) (jmul (Fin 0.821222) (jexp (jmul (Fin (- 0.005429)) soilN))))
           (jadd (Fin 1) (jmul (Fin 0.015) (jsub om (Fin 20)))),
      jmul (jmul (jmul (jmul soilP (Fin 0.15)) (jmul (Fin 1.976) (jexp (jmul (Fin (- 0.041744)) soilP))))
                 (jadd (Fin 1) (jmul (Fin 0.01) (jsub om (Fin 20)))))
           (if jle (Fin 6) ph \<and> jle ph (Fin 7) then Fin 1 else Fin 0.7),
      jmul (jmul (jmul soilK (Fin 0.15)) (jmul (Fin 1.1038) (jexp (jmul (Fin (- 0.006362)) soilK))))
           (jadd (Fin 1) (jmul (Fin 0.008) (jsub om (Fin 20)))),
      \<lparr> impact_N = jadd (Fin 1) (jmul (Fin 0.015) (jsub om (Fin 20))),
        impact_P = jadd (Fin 1) (jmul (Fin 0.01) (jsub om (Fin 20))),
        impact_K = jadd (Fin 1) (jmul (Fin 0.008) (jsub om (Fin 20))),
        ph_impact_on_p = (if jle (Fin 6) ph \<and> jle ph (Fin 7) then Fin 1 else Fin 0.7) \<rparr>)
   \<and> om_impact_N (Fin 20) = Fin 1 \<and> om_impact_P (Fin 20) = Fin 1 \<and> om_impact_K (Fin 20) = Fin 1
   \<and> (n \<noteq> 0 \<and> p \<noteq> 0 \<and> k \<noteq> 0 \<longrightarrow>
        calculateSoilSupply (Fin n) (Fin p) (Fin k) (Fin m) (Fin a) Rice =
          (Fin (n * 0.15 * ((3.2164 + 4799.9239 / n) / 100) * (1 + 0.015 * (m - 20))),
           Fin (p * 0.15 * ((17.4898 + 2235.9674 / p) / 100) * (1 + 0.01 * (m - 20))
                * (if 6 \<le> a \<and> a \<le> 7 then 1 else 0.7)),
           Fin (k * 0.15 * ((10.7412 + 6147.1032 / k) / 100) * (1 + 0.008 * (m - 20))),
           \<lparr> impact_N = Fin (1 + 0.015 * (m - 20)),
             impact_P = Fin (1 + 0.01 * (m - 20)),
             impact_K = Fin (1 + 0.008 * (m - 20)),
             ph_impact_on_p = Fin (if 6 \<le> a \<and> a \<le> 7 then 1 else 0.7) \<rparr>))"
  by (simp add: calculateSoilSupply_def Let_def riceCorr_def wheatCorr_def om_impact_N_def
        om_impact_P_def om_impact_K_def organic_matter_impact_def ph_adjustment_def jge_def jsub_def)

theorem calculateSoilSupply_formula_witness:
  "(100::real) \<noteq> 0 \<and> (20::real) \<noteq> 0
   \<and> calculateSoilSupply (Fin 100) (Fin 20) (Fin 100) (Fin 20) (Fin (65 / 10)) Rice =
       (Fin (153646917 / 20000000), Fin (77572902 / 20000000), Fin (27079587 / 2500000),
        \<lparr> impact_N = Fin 1, impact_P = Fin 1, impact_K = Fin 1, ph_impact_on_p = Fin 1 \<rparr>)"
  using calculateSoilSupply_formula[of "Fin 100" "Fin 20" "Fin 100" "Fin 20" "Fin (65 / 10)" 100 20 100 20 "65 / 10"]
  by (simp add: jsub_def)

section \<open>The timing advice\<close>

text \<open>
  Claim C9. The advice allows fertilizing exactly when the weather is suitable (its flag
  is not \<^verbatim>\<open>false\<close>), the growth stage computed for the crop and the sowing date is not
  maturity and, for a crop other than rice, is not overwintering. For a sowing date that
  parses, the stage is the one the stage table of the crop gives for the rounded number
  of days since sowing (for rice, maturity from 105 days on).
\<close>

theorem timingAdvice_can_fertilize:
  "(can_fertilize (timingAdvice rt now cropType sowingDate weather) \<longleftrightarrow>
      suitable weather \<noteq> Some False
      \<and> calculateGrowthStage rt now cropType sowingDate \<noteq> Maturity
      \<and> (cropType \<noteq> RiceName \<longrightarrow> calculateGrowthStage rt now cropType sowingDate \<noteq> Overwintering))
   \<and> (text \<noteq> [] \<and> date_parse rt text = Fin t \<longrightarrow>
        calculateGrowthStage rt (Fin n) cropType (Some text) =
          (if cropType = RiceName then spec_rice_stage \<lfloor>(n - t) / 86400000 + 1 / 2\<rfloor>
           else spec_wheat_stage \<lfloor>(n - t) / 86400000 + 1 / 2\<rfloor>))
   \<and> (spec_rice_stage d = Maturity \<longleftrightarrow> 105 \<le> d)"
proof -
  have never_harvest: "calculateGrowthStage rt now cropType sowingDate \<noteq> Harvest"
    by (simp add: calculateGrowthStage_def Let_def)
  have rice_no_winter:
    "cropType = RiceName \<Longrightarrow> calculateGrowthStage rt now cropType sowingDate \<noteq> Overwintering"
    by (simp add: calculateGrowthStage_def Let_def)
  have flag: "can_fertilize (timingAdvice rt now cropType sowingDate weather) \<longleftrightarrow>
      suitable weather \<noteq> Some False
      \<and> calculateGrowthStage rt now cropType sowingDate \<noteq> Maturity
      \<and> (cropType \<noteq> RiceName \<longrightarrow> calculateGrowthStage rt now cropType sowingDate \<noteq> Overwintering)"
    using never_harvest rice_no_winter
    by (cases "calculateGrowthStage rt now cropType sowingDate")
       (auto simp add: timingAdvice_def generateTimingAdvice_def Let_def)
  have table: "text \<noteq> [] \<and> date_parse rt text = Fin t \<longrightarrow>
        calculateGrowthStage rt (Fin n) cropType (Some text) =
          (if cropType = RiceName then spec_rice_stage \<lfloor>(n - t) / 86400000 + 1 / 2\<rfloor>
           else spec_wheat_stage \<lfloor>(n - t) / 86400000 + 1 / 2\<rfloor>)"
    by (simp add: calculateGrowthStage_def Let_def present_def text_or_def jsub_def
          spec_rice_stage_def spec_wheat_stage_def)
  have mature: "spec_rice_stage d = Maturity \<longleftrightarrow> 105 \<le> d"
    by (simp add: spec_rice_stage_def)
  show ?thesis using flag table mature by blast
qed

theorem timingAdvice_can_fertilize_witness:
  "''2026-06-17'' \<noteq> [] \<and> date_parse example_runtime ''2026-06-17'' = Fin 1781654400000
   \<and> calculateGrowthStage example_runtime (Fin 1785974400000) RiceName (Some ''2026-06-17'') = Jointing
   \<and> can_fertilize (timingAdvice example_runtime (Fin 1785974400000) RiceName (Some ''2026-06-17'')
        \<lparr> suitable = Some True, warning = None \<rparr>)
   \<and> calculateGrowthStage example_runtime (Fin 1790294400000) WheatName (Some ''2026-06-17'') = Overwintering
   \<and> \<not> can_fertilize (timingAdvice example_runtime (Fin 1790294400000) WheatName (Some ''2026-06-17'')
          \<lparr> suitable = Some True, warning = None \<rparr>)"
proof -
  have parsed: "date_parse example_runtime ''2026-06-17'' = Fin 1781654400000"
    by (simp add: example_runtime_def)
  have rice: "calculateGrowthStage example_runtime (Fin 1785974400000) RiceName (Some ''2026-06-17'') = Jointing"
    using timingAdvice_can_fertilize[of example_runtime _ RiceName _ _ "''2026-06-17''" 1781654400000 1785974400000]
      parsed
    by (simp add: spec_rice_stage_def)
  have wheat: "calculateGrowthStage example_runtime (Fin 1790294400000) WheatName (Some ''2026-06-17'') = Overwintering"
    using timingAdvice_can_fertilize[of example_runtime _ WheatName _ _ "''2026-06-17''" 1781654400000 1790294400000]
      parsed
    by (simp add: spec_wheat_stage_def)
  show ?thesis
    using parsed rice wheat
      timingAdvice_can_fertilize[of example_runtime "Fin 1785974400000" RiceName "Some ''2026-06-17''"
        "\<lparr> suitable = Some True, warning = None \<rparr>"]
      timingAdvice_can_fertilize[of example_runtime "Fin 1790294400000" WheatName "Some ''2026-06-17''"
        "\<lparr> suitable = Some True, warning = None \<rparr>"]
    by simp
qed

section \<open>The request validation\<close>

text \<open>
  Claim C8. A request whose longitude and latitude, once parsed, are not both numbers
  inside the window from 110 to 122 and from 28 to 33 is rejected: the handler answers
  with one of its rejection reasons and computes no recommendation. This covers the
  coordinate (200, 50) and a request that gives a sowing date and no coordinates.
\<close>

theorem calculateHandler_rejects_outside_window:
  assumes "\<not> inWindow (parseFloat pf (body_lon d)) (parseFloat pf (body_lat d))"
  shows "case calculateHandler ctx rt pf rnd (Some d) of
           Rejected reason \<Rightarrow>
             reason \<in> {BadCropType, MissingYield, MissingDateOrCoordinates, NotNumeric,
                        YieldOutOfRange, CoordinatesOutOfRange}
         | Computed r \<Rightarrow> False"
  using assms by (simp add: calculateHandler_def Let_def)

theorem calculateHandler_rejects_outside_window_witness:
  "\<not> inWindow (parseFloat (\<lambda>s. NaN) (body_lon far_away_body)) (parseFloat (\<lambda>s. NaN) (body_lat far_away_body))
   \<and> calculateHandler empty_context example_runtime (\<lambda>s. NaN) (1 / 2, 1 / 2, 1 / 2) (Some far_away_body)
       = Rejected CoordinatesOutOfRange
   \<and> \<not> inWindow (parseFloat (\<lambda>s. NaN) (body_lon date_only_body)) (parseFloat (\<lambda>s. NaN) (body_lat date_only_body))
   \<and> calculateHandler empty_context example_runtime (\<lambda>s. NaN) (1 / 2, 1 / 2, 1 / 2) (Some date_only_body)
       = Rejected CoordinatesOutOfRange"
proof -
  have far: "\<not> inWindow (parseFloat (\<lambda>s. NaN) (body_lon far_away_body)) (parseFloat (\<lambda>s. NaN) (body_lat far_away_body))"
    by (simp add: far_away_body_def inWindow_def jge_def)
  have absent: "\<not> inWindow (parseFloat (\<lambda>s. NaN) (body_lon date_only_body)) (parseFloat (\<lambda>s. NaN) (body_lat date_only_body))"
    by (simp add: date_only_body_def inWindow_def jge_def)
  have "calculateHandler empty_context example_runtime (\<lambda>s. NaN) (1 / 2, 1 / 2, 1 / 2) (Some far_away_body)
          = Rejected CoordinatesOutOfRange"
    using calculateHandler_rejects_outside_window[OF far, of empty_context example_runtime "(1 / 2, 1 / 2, 1 / 2)"]
    by (simp add: calculateHandler_def far_away_body_def Let_def inWindow_def js_eval)
  moreover have "calculateHandler empty_context example_runtime (\<lambda>s. NaN) (1 / 2, 1 / 2, 1 / 2) (Some date_only_body)
          = Rejected CoordinatesOutOfRange"
    using calculateHandler_rejects_outside_window[OF absent, of empty_context example_runtime "(1 / 2, 1 / 2, 1 / 2)"]
    by (simp add: calculateHandler_def date_only_body_def Let_def inWindow_def js_eval)
  ultimately show ?thesis using far absent by simp
qed

section \<open>The provenance flag\<close>

lemma applyCustom_default: "is_default (applyCustom c b) = is_default b"
  by (simp add: applyCustom_def Let_def split: option.splits)

lemma applySimulated_default: "is_default (applySimulated s b) = is_default b"
  by (simp add: applySimulated_def Let_def)

lemma applyGeoTIFF_default:
  "is_default (applyGeoTIFF (getSoilNutrientsFromGeoTIFF cache x y) initialBaseData)
     = (\<not> has_valid_data (getSoilNutrientsFromGeoTIFF cache x y))"
  by (auto simp add: applyGeoTIFF_def getSoilNutrientsFromGeoTIFF_def Let_def initialBaseData_def
        geotiffEntry_def split: option.splits)

lemma resolver_default:
  "is_default (getSoilNutrientsWithCustom cache rnd x y c)
     = (\<not> has_valid_data (getSoilNutrientsFromGeoTIFF cache x y))"
  by (simp add: getSoilNutrientsWithCustom_def Let_def applyCustom_default applySimulated_default
        applyGeoTIFF_default)

lemma applyCustom_sources:
  "source_AN (data_source (applyCustom c b)) =
     (case c of None \<Rightarrow> source_AN (data_source b)
      | Some m \<Rightarrow> if custom_N m \<noteq> None then Manual else source_AN (data_source b))"
  "source_AP (data_source (applyCustom c b)) =
     (case c of None \<Rightarrow> source_AP (data_source b)
      | Some m \<Rightarrow> if custom_P m \<noteq> None then Manual else source_AP (data_source b))"
  "source_AK (data_source (applyCustom c b)) =
     (case c of None \<Rightarrow> source_AK (data_source b)
      | Some m \<Rightarrow> if custom_K m \<noteq> None then Manual else source_AK (data_source b))"
  by (auto simp add: applyCustom_def Let_def split: option.splits)

lemma applySimulated_sources:
  "source_AN (data_source (applySimulated s b)) = (if soil_N b = None then Simulated else source_AN (data_source b))"
  "source_AP (data_source (applySimulated s b)) = (if soil_P b = None then Simulated else source_AP (data_source b))"
  "source_AK (data_source (applySimulated s b)) = (if soil_K b = None then Simulated else source_AK (data_source b))"
  by (auto simp add: applySimulated_def Let_def)

lemma applyGeoTIFF_sources:
  "source_AN (data_source (applyGeoTIFF g initialBaseData)) =
     (if has_valid_data g \<and> geo_AN g \<noteq> None then GeoTIFF else Simulated)"
  "source_AP (data_source (applyGeoTIFF g initialBaseData)) =
     (if has_valid_data g \<and> geo_AP g \<noteq> None then GeoTIFF else Simulated)"
  "source_AK (data_source (applyGeoTIFF g initialBaseData)) =
     (if has_valid_data g \<and> geo_AK g \<noteq> None then GeoTIFF else Simulated)"
  by (auto simp add: applyGeoTIFF_def initialBaseData_def Let_def split: option.splits)

lemma applyGeoTIFF_contents:
  "soil_N (applyGeoTIFF g initialBaseData) = None \<longleftrightarrow> \<not> (has_valid_data g \<and> geo_AN g \<noteq> None)"
  "soil_P (applyGeoTIFF g initialBaseData) = None \<longleftrightarrow> \<not> (has_valid_data g \<and> geo_AP g \<noteq> None)"
  "soil_K (applyGeoTIFF g initialBaseData) = None \<longleftrightarrow> \<not> (has_valid_data g \<and> geo_AK g \<noteq> None)"
  by (auto simp add: applyGeoTIFF_def initialBaseData_def Let_def split: option.splits)

lemma has_valid_data_entries:
  "has_valid_data (getSoilNutrientsFromGeoTIFF cache x y) \<longleftrightarrow>
     geo_AN (getSoilNutrientsFromGeoTIFF cache x y) \<noteq> None
     \<or> geo_AP (getSoilNutrientsFromGeoTIFF cache x y) \<noteq> None
     \<or> geo_AK (getSoilNutrientsFromGeoTIFF cache x y) \<noteq> None"
  by (simp add: getSoilNutrientsFromGeoTIFF_def Let_def geotiffEntry_def)

lemma resolver_sources_raster:
  assumes "has_valid_data (getSoilNutrientsFromGeoTIFF cache x y)"
  shows "source_AN (data_source (getSoilNutrientsWithCustom cache rnd x y c)) \<in> {GeoTIFF, Manual}
       \<or> source_AP (data_source (getSoilNutrientsWithCustom cache rnd x y c)) \<in> {GeoTIFF, Manual}
       \<or> source_AK (data_source (getSoilNutrientsWithCustom cache rnd x y c)) \<in> {GeoTIFF, Manual}"
  using assms has_valid_data_entries[of cache x y]
  by (auto simp add: getSoilNutrientsWithCustom_def Let_def applyCustom_sources applySimulated_sources
        applyGeoTIFF_sources applyGeoTIFF_contents split: option.splits)

lemma resolver_sources_no_raster:
  assumes "\<not> has_valid_data (getSoilNutrientsFromGeoTIFF cache x y)"
  shows "source_AN (data_source (getSoilNutrientsWithCustom cache rnd x y c)) \<noteq> GeoTIFF
       \<and> source_AP (data_source (getSoilNutrientsWithCustom cache rnd x y c)) \<noteq> GeoTIFF
       \<and> source_AK (data_source (getSoilNutrientsWithCustom cache rnd x y c)) \<noteq> GeoTIFF"
  using assms
  by (auto simp add: getSoilNutrientsWithCustom_def Let_def applyCustom_sources applySimulated_sources
        applyGeoTIFF_sources applyGeoTIFF_contents split: option.splits)

lemma recommendation_params:
  "params (calculateFertilizerRecommendation ctx rt rnd inp cropType straw)
     = calcParams (nutrientBalance ctx rnd inp cropType straw)"
  by (simp add: calculateFertilizerRecommendation_def Let_def)

lemma balance_soilData:
  "soilData (nutrientBalance ctx rnd inp cropType straw) = resolveSoil ctx rnd inp cropType"
  by (simp add: nutrientBalance_def Let_def split: prod.splits)

lemma params_flags:
  "uses_default_data (params (calculateFertilizerRecommendation ctx rt rnd inp cropType straw))
     = is_default (resolveSoil ctx rnd inp cropType)"
  "param_data_source (params (calculateFertilizerRecommendation ctx rt rnd inp cropType straw))
     = data_source (resolveSoil ctx rnd inp cropType)"
  by (simp_all add: recommendation_params calcParams_def balance_soilData)

text \<open>
  Claim C2, as the code has it. The flag of the returned parameters is false exactly
  when both coordinates were given and the sampler returned a value for at least one
  of the three layers at them. So it is false whenever the source of a nutrient is the
  raster, and true whenever the source of every nutrient is simulated or default. A
  manual value does not clear it.
\<close>

theorem uses_default_data_iff_no_raster:
  "let r = calculateFertilizerRecommendation ctx rt rnd inp cropType straw;
       src = param_data_source (params r);
       x = falsy_or (lon inp) (Fin (114305 / 1000));
       y = falsy_or (lat inp) (Fin (30592 / 1000));
       rasterHit = (lon inp \<noteq> None \<and> lat inp \<noteq> None
                    \<and> (extractValueFromGeoTIFF x y (cache_AN (geotiffCache ctx)) \<noteq> PNull
                       \<or> extractValueFromGeoTIFF x y (cache_AP (geotiffCache ctx)) \<noteq> PNull
                       \<or> extractValueFromGeoTIFF x y (cache_AK (geotiffCache ctx)) \<noteq> PNull))
   in (uses_default_data (params r) \<longleftrightarrow> \<not> rasterHit)
      \<and> (source_AN src = GeoTIFF \<or> source_AP src = GeoTIFF \<or> source_AK src = GeoTIFF
            \<longrightarrow> \<not> uses_default_data (params r))
      \<and> (source_AN src \<in> {Simulated, DefaultSource} \<and> source_AP src \<in> {Simulated, DefaultSource}
          \<and> source_AK src \<in> {Simulated, DefaultSource} \<longrightarrow> uses_default_data (params r))"
proof -
  define x where "x = falsy_or (lon inp) (Fin (114305 / 1000))"
  define y where "y = falsy_or (lat inp) (Fin (30592 / 1000))"
  define hit where "hit = has_valid_data (getSoilNutrientsFromGeoTIFF (geotiffCache ctx) x y)"
  have hit_pixels: "hit \<longleftrightarrow>
      extractValueFromGeoTIFF x y (cache_AN (geotiffCache ctx)) \<noteq> PNull
      \<or> extractValueFromGeoTIFF x y (cache_AP (geotiffCache ctx)) \<noteq> PNull
      \<or> extractValueFromGeoTIFF x y (cache_AK (geotiffCache ctx)) \<noteq> PNull"
    by (simp add: hit_def getSoilNutrientsFromGeoTIFF_def Let_def)
  show ?thesis
  proof (cases "lon inp \<noteq> None \<and> lat inp \<noteq> None")
    case True
    then have soil: "resolveSoil ctx rnd inp cropType
        = getSoilNutrientsWithCustom (geotiffCache ctx) rnd x y (custom_soil_data inp)"
      by (simp add: resolveSoil_def Let_def x_def y_def)
    show ?thesis
      using True resolver_sources_raster[of "geotiffCache ctx" x y rnd "custom_soil_data inp"]
        resolver_sources_no_raster[of "geotiffCache ctx" x y rnd "custom_soil_data inp"]
        hit_pixels
      unfolding Let_def params_flags soil resolver_default x_def[symmetric] y_def[symmetric]
        hit_def[symmetric]
      by auto
  next
    case False
    then show ?thesis
      unfolding Let_def params_flags
      by (auto simp add: resolveSoil_def Let_def split: option.splits)
  qed
qed

lemma example_pixel:
  "extractValueFromGeoTIFF (Fin 111) (Fin 29) (Some example_layer) = PValue (Fin 56)"
  by (simp add: extractValueFromGeoTIFF_def example_layer_def loadLayer_def Let_def js_eval
        js_index_def isNoData_def binary64_eval)

theorem uses_default_data_iff_no_raster_witness:
  "source_AN (param_data_source (params
      (calculateFertilizerRecommendation example_context example_runtime (1 / 2, 1 / 2, 1 / 2)
         (located_input 111 29 None) Rice None))) = GeoTIFF
   \<and> \<not> uses_default_data (params
      (calculateFertilizerRecommendation example_context example_runtime (1 / 2, 1 / 2, 1 / 2)
         (located_input 111 29 None) Rice None))
   \<and> source_AN (param_data_source (params
      (calculateFertilizerRecommendation empty_context example_runtime (1 / 2, 1 / 2, 1 / 2)
         (located_input 111 29 None) Rice None))) = Simulated
   \<and> uses_default_data (params
      (calculateFertilizerRecommendation empty_context example_runtime (1 / 2, 1 / 2, 1 / 2)
         (located_input 111 29 None) Rice None))"
proof -
  have raster: "source_AN (param_data_source (params
      (calculateFertilizerRecommendation example_context example_runtime (1 / 2, 1 / 2, 1 / 2)
         (located_input 111 29 None) Rice None))) = GeoTIFF"
    unfolding params_flags
    by (simp add: resolveSoil_def located_input_def Let_def getSoilNutrientsWithCustom_def
          applyCustom_sources applySimulated_sources applyGeoTIFF_sources applyGeoTIFF_contents
          getSoilNutrientsFromGeoTIFF_def example_context_def example_pixel geotiffEntry_def js_eval)
  have simulated: "source_AN (param_data_source (params
      (calculateFertilizerRecommendation empty_context example_runtime (1 / 2, 1 / 2, 1 / 2)
         (located_input 111 29 None) Rice None))) = Simulated"
    unfolding params_flags
    by (simp add: resolveSoil_def located_input_def Let_def getSoilNutrientsWithCustom_def
          applyCustom_sources applySimulated_sources applyGeoTIFF_sources applyGeoTIFF_contents
          getSoilNutrientsFromGeoTIFF_def empty_context_def extractValueFromGeoTIFF_def
          geotiffEntry_def js_eval)
  have flag_raster: "\<not> uses_default_data (params
      (calculateFertilizerRecommendation example_context example_runtime (1 / 2, 1 / 2, 1 / 2)
         (located_input 111 29 None) Rice None))"
    using uses_default_data_iff_no_raster[of example_context example_runtime "(1 / 2, 1 / 2, 1 / 2)"
        "located_input 111 29 None" Rice None]
    by (simp add: Let_def located_input_def example_context_def example_pixel js_eval)
  have flag_simulated: "uses_default_data (params
      (calculateFertilizerRecommendation empty_context example_runtime (1 / 2, 1 / 2, 1 / 2)
         (located_input 111 29 None) Rice None))"
    using uses_default_data_iff_no_raster[of empty_context example_runtime "(1 / 2, 1 / 2, 1 / 2)"
        "located_input 111 29 None" Rice None]
    by (simp add: Let_def located_input_def empty_context_def extractValueFromGeoTIFF_def js_eval)
  show ?thesis
    using raster simulated flag_raster flag_simulated by simp
qed

text \<open>
  The claim as stated fails: with no raster loaded, a manual nitrogen content of 100
  gives the source "manual" for nitrogen while the flag stays true.
\<close>

theorem uses_default_data_manual_counterexample:
  "source_AN (param_data_source (params
      (calculateFertilizerRecommendation empty_context example_runtime (1 / 2, 1 / 2, 1 / 2)
         (located_input (114305 / 1000) (30592 / 1000) (Some (manual_N 100))) Rice None))) = Manual
   \<and> uses_default_data (params
      (calculateFertilizerRecommendation empty_context example_runtime (1 / 2, 1 / 2, 1 / 2)
         (located_input (114305 / 1000) (30592 / 1000) (Some (manual_N 100))) Rice None))"
  unfolding params_flags
  by (simp add: resolveSoil_def located_input_def manual_N_def Let_def resolver_default applyCustom_sources
        getSoilNutrientsWithCustom_def getSoilNutrientsFromGeoTIFF_def empty_context_def
        extractValueFromGeoTIFF_def geotiffEntry_def applyCustom_default applySimulated_default
        applyGeoTIFF_def initialBaseData_def)

section \<open>The product masses\<close>

text \<open>For rice the three ratios are never falsy, so the fallback ratios are never used.\<close>

lemma falsy_or_rice:
  "falsy_or (base_ratio (adjustFertilizerRatio rt sd Rice temp)) d
     = fst (ratio_values (adjustFertilizerRatio rt sd Rice temp))"
  "falsy_or (tiller_ratio (adjustFertilizerRatio rt sd Rice temp)) d
     = fst (snd (ratio_values (adjustFertilizerRatio rt sd Rice temp)))"
  "falsy_or (panicle_ratio (adjustFertilizerRatio rt sd Rice temp)) d
     = snd (snd (ratio_values (adjustFertilizerRatio rt sd Rice temp)))"
  by (simp_all add: adjustFertilizerRatio_def Let_def clamp01_unit falsy_or_def jor_def truthy_def)

text \<open>
  Claim C6, as the code has it. For rice, each product mass is a nutrient mass divided
  by the nutrient content of the product and rounded to one decimal place: the urea of
  a stage is the nitrogen of the stage (the required nitrogen times the ratio of the
  stage, plus the additional nitrogen of the straw at the base stage) over 0.46, the
  superphosphate is the required phosphorus over 0.12, and the potassium chloride of
  the base and panicle stages is 0.6 and 0.4 of the required potassium over 0.60. For
  wheat the product masses do not come from the required nutrient masses: the compound
  fertilizer and the urea are the amounts of the yield tier, and the superphosphate and
  the potassium chloride are the 15 and 10 percent shares of the compound fertilizer
  over 0.12 and 0.60.
\<close>

theorem product_masses:
  "let b = nutrientBalance ctx rnd inp cropType straw;
       ratio = adjustFertilizerRatio rt (fst (sowingDates b)) cropType (tempForecast b);
       r = calculateFertilizerRecommendation ctx rt rnd inp cropType straw
   in (case amounts r of
         RiceAmounts f n \<Rightarrow>
           cropType = Rice
           \<and> (case ratio_values ratio of (rBase, rTiller, rPanicle) \<Rightarrow>
                 urea_base f = round1 (jdiv (jadd (jmul (nFertilizer b) rBase) (nAdditional b)) (Fin 0.46))
                 \<and> urea_tiller f = round1 (jdiv (jmul (nFertilizer b) rTiller) (Fin 0.46))
                 \<and> urea_panicle f = round1 (jdiv (jmul (nFertilizer b) rPanicle) (Fin 0.46))
                 \<and> N_base n = round1 (jadd (jmul (nFertilizer b) rBase) (nAdditional b))
                 \<and> N_tiller n = round1 (jmul (nFertilizer b) rTiller)
                 \<and> N_panicle n = round1 (jmul (nFertilizer b) rPanicle))
           \<and> superphosphate_base f = round1 (jdiv (pFertilizer b) (Fin 0.12))
           \<and> kcl_base f = round1 (jdiv (jmul (kFertilizer b) (Fin 0.6)) (Fin 0.60))
           \<and> kcl_panicle f = round1 (jdiv (jmul (kFertilizer b) (Fin 0.4)) (Fin 0.60))
           \<and> P2O5_total n = round1 (pFertilizer b)
           \<and> K2O_total n = round1 (kFertilizer b)
       | WheatAmounts f n \<Rightarrow>
           cropType = Wheat
           \<and> (case getWheatFertilizerByYield (targetYield b) of (formulaKg, ureaKg) \<Rightarrow>
                 formula_base f = round1 (Fin formulaKg)
                 \<and> urea_jointing f = round1 (Fin ureaKg)
                 \<and> wheat_superphosphate_base f
                     = round1 (jdiv (jmul (Fin formulaKg) (Fin (15 / 100))) (Fin 0.12))
                 \<and> wheat_kcl_base f
                     = round1 (jdiv (jmul (Fin formulaKg) (Fin (10 / 100))) (Fin 0.60))
                 \<and> wheat_N_base n = round1 (jmul (Fin formulaKg) (Fin (20 / 100)))
                 \<and> wheat_N_jointing n = round1 (jmul (Fin ureaKg) (Fin 0.46))
                 \<and> wheat_P2O5_total n = round1 (jmul (Fin formulaKg) (Fin (15 / 100)))
                 \<and> wheat_K2O_total n = round1 (jmul (Fin formulaKg) (Fin (10 / 100)))))"
proof (cases cropType)
  case Rice
  then show ?thesis
    unfolding Let_def
    by (simp add: calculateFertilizerRecommendation_def Let_def riceAmounts_def falsy_or_rice
          urea_N_content_def superphosphate_P_content_def potassium_chloride_K_content_def
          split: prod.splits)
next
  case Wheat
  then show ?thesis
    unfolding Let_def
    by (simp add: calculateFertilizerRecommendation_def Let_def wheatAmounts_def formula_ratio_def
          urea_N_content_def superphosphate_P_content_def potassium_chloride_K_content_def
          mult.commute split: prod.splits)
qed

lemma wheat_balance_P:
  "pFertilizer (nutrientBalance empty_context rnd (manual_input (manual_P 0)) Wheat None)
     = Fin (7227 / 126)"
  by (simp add: balance_eval js_eval manual_input_def manual_P_def)

lemma wheat_amounts_example:
  "amounts (calculateFertilizerRecommendation empty_context rt rnd (manual_input (manual_P 0)) Wheat None)
    = WheatAmounts
        \<lparr> formula_base = Fin 45, urea_jointing = Fin 11,
          wheat_superphosphate_base = Fin (563 / 10), wheat_kcl_base = Fin (75 / 10) \<rparr>
        \<lparr> wheat_N_base = Fin 9, wheat_N_jointing = Fin (51 / 10),
          wheat_P2O5_total = Fin (68 / 10), wheat_K2O_total = Fin (45 / 10) \<rparr>"
  by (simp add: calculateFertilizerRecommendation_def wheatAmounts_def getWheatFertilizerByYield_def
        yield_levels_def formula_ratio_def balance_eval js_eval manual_input_def manual_P_def
        superphosphate_P_content_def potassium_chloride_K_content_def urea_N_content_def)

theorem product_masses_witness:
  "case amounts (calculateFertilizerRecommendation empty_context example_runtime (1 / 2, 1 / 2, 1 / 2)
                   (manual_input (manual_P 0)) Wheat None) of
     WheatAmounts f n \<Rightarrow>
       formula_base f = Fin 45 \<and> urea_jointing f = Fin 11
       \<and> wheat_superphosphate_base f = Fin (563 / 10) \<and> wheat_kcl_base f = Fin (75 / 10)
   | RiceAmounts f n \<Rightarrow> False"
  using product_masses[of empty_context "(1 / 2, 1 / 2, 1 / 2)" "manual_input (manual_P 0)" Wheat None
      example_runtime]
  by (simp add: wheat_amounts_example)

text \<open>
  The claim as stated fails for wheat: for a target yield of 500 and a manual
  phosphorus content of 0, the required phosphorus is 7227 / 126 kg, which over 0.12
  is 478.0 kg of superphosphate, while the recommended superphosphate is 56.3 kg.
\<close>

theorem product_masses_wheat_counterexample:
  "round1 (jdiv (pFertilizer (nutrientBalance empty_context (1 / 2, 1 / 2, 1 / 2)
                    (manual_input (manual_P 0)) Wheat None))
                (Fin superphosphate_P_content)) = Fin 478
   \<and> (case amounts (calculateFertilizerRecommendation empty_context example_runtime (1 / 2, 1 / 2, 1 / 2)
                      (manual_input (manual_P 0)) Wheat None) of
         WheatAmounts f n \<Rightarrow> wheat_superphosphate_base f = Fin (563 / 10)
       | RiceAmounts f n \<Rightarrow> False)"
  by (simp add: wheat_balance_P wheat_amounts_example js_eval superphosphate_P_content_def)

section \<open>The sign of the masses\<close>

lemma rice_supply_zero_N:
  "fst (calculateSoilSupply (Fin 0) soilP soilK om ph Rice) = NaN"
  by (simp add: calculateSoilSupply_def Let_def riceCorr_def signed_inf_def)

lemma rice_zero_N_balance:
  assumes "soil_N (resolveSoil ctx rnd inp Rice) = Some (Fin 0)"
  shows "nFertilizer (nutrientBalance ctx rnd inp Rice straw) = NaN"
  using assms rice_supply_zero_N[of "num_of (soil_P (resolveSoil ctx rnd inp Rice))"
      "num_of (soil_K (resolveSoil ctx rnd inp Rice))"
      "nullish_or (organic_matter inp) (Fin (207 / 10))" "nullish_or (soil_ph inp) (Fin (818 / 100))"]
  by (auto simp add: nutrientBalance_def Let_def num_of_def split: prod.splits)

text \<open>
  For rice, a soil record whose nitrogen content is zero makes every nitrogen mass of
  the recommendation NaN: the correction factor divides by the content, and zero times
  the infinite factor is no number.
\<close>

lemma rice_zero_N_amounts:
  assumes "soil_N (resolveSoil ctx rnd inp Rice) = Some (Fin 0)"
  shows "case amounts (calculateFertilizerRecommendation ctx rt rnd inp Rice straw) of
           RiceAmounts f n \<Rightarrow>
             urea_base f = NaN \<and> urea_tiller f = NaN \<and> urea_panicle f = NaN
             \<and> N_base n = NaN \<and> N_tiller n = NaN \<and> N_panicle n = NaN
         | WheatAmounts f n \<Rightarrow> False"
  by (simp add: calculateFertilizerRecommendation_def Let_def riceAmounts_def
        rice_zero_N_balance[OF assms])

text \<open>
  Apart from a soil content of zero the masses are as the claim says. With no raster
  value and no efficiency feature (so the soil is simulated or manual, and the
  efficiencies are the defaults of the crop), every request the handler accepts whose
  manual contents are not zero gets fertilizer and nutrient masses that are finite and
  not negative; for wheat this holds whatever the input.
\<close>

lemma round1_Fin: "round1 (Fin v) = Fin (of_int \<lfloor>v * 10 + 1 / 2\<rfloor> / 10)"
  by (simp add: round1_def)

lemma round1_nonneg: "0 \<le> v \<Longrightarrow> nonneg_number (round1 (Fin v))"
  by (simp add: round1_Fin)

lemma round1_ge: "of_int m \<le> v \<Longrightarrow> round1 (Fin v) = Fin u \<Longrightarrow> of_int m \<le> u"
proof -
  assume a: "of_int m \<le> v" and b: "round1 (Fin v) = Fin u"
  have "of_int (m * 10) \<le> v * 10 + 1 / 2" using a by simp
  then have "m * 10 \<le> \<lfloor>v * 10 + 1 / 2\<rfloor>" by (simp only: le_floor_iff)
  then have "of_int (m * 10) \<le> (of_int \<lfloor>v * 10 + 1 / 2\<rfloor> :: real)" by (simp only: of_int_le_iff)
  then show ?thesis using b by (simp add: round1_Fin)
qed

lemma wheat_table_nonneg:
  "0 \<le> fst (getWheatFertilizerByYield y) \<and> 0 \<le> snd (getWheatFertilizerByYield y)"
  by (simp add: getWheatFertilizerByYield_def yield_levels_def Let_def)

lemma wheat_masses:
  "list_all nonneg_number (masses (amounts (calculateFertilizerRecommendation ctx rt rnd inp Wheat straw)))"
proof -
  obtain a b where ab: "getWheatFertilizerByYield (targetYield (nutrientBalance ctx rnd inp Wheat straw)) = (a, b)"
    by (cases "getWheatFertilizerByYield (targetYield (nutrientBalance ctx rnd inp Wheat straw))")
  have "0 \<le> a" "0 \<le> b"
    using wheat_table_nonneg[of "targetYield (nutrientBalance ctx rnd inp Wheat straw)"] ab by simp_all
  then show ?thesis
    by (simp add: calculateFertilizerRecommendation_def Let_def wheatAmounts_def formula_ratio_def ab
          round1_nonneg urea_N_content_def superphosphate_P_content_def potassium_chloride_K_content_def)
qed

lemma rice_ratio_cases:
  "adjustFertilizerRatio rt sd Rice temp \<in>
     { RiceRatios (Fin (45 / 100)) (Fin (25 / 100)) (Fin (30 / 100)),
       RiceRatios (Fin (40 / 100)) (Fin (25 / 100)) (Fin (35 / 100)),
       RiceRatios (Fin (60 / 100)) (Fin (30 / 100)) (Fin (10 / 100)),
       RiceRatios (Fin (55 / 100)) (Fin (30 / 100)) (Fin (15 / 100)),
       RiceRatios (Fin (55 / 100)) (Fin (25 / 100)) (Fin (20 / 100)),
       RiceRatios (Fin (50 / 100)) (Fin (25 / 100)) (Fin (25 / 100)) }"
  by (simp add: adjustFertilizerRatio_def Let_def clamp01_unit)

lemma rice_amounts_nonneg:
  assumes "nFertilizer b = Fin a" "0 \<le> a" "pFertilizer b = Fin p" "0 \<le> p"
    and "kFertilizer b = Fin k" "0 \<le> k" "nAdditional b = Fin d" "0 \<le> d"
  shows "list_all nonneg_number (masses (riceAmounts b (adjustFertilizerRatio rt sd Rice temp)))"
  using rice_ratio_cases[of rt sd temp] assms
  by (auto simp add: riceAmounts_def Let_def falsy_or_def jor_def truthy_def round1_Fin
        urea_N_content_def superphosphate_P_content_def potassium_chloride_K_content_def)


lemma clampTo_Fin: "clampTo lo hi (Fin v) = Fin (max lo (min hi v))"
  by (simp add: clampTo_def jmax_def jmin_def max_def min_def)

lemma simulatedBase_Fin:
  "simulatedBase c0 cx cy (Fin x) (Fin y) = Fin (c0 + (x - 114) * cx + (y - 30) * cy)"
  by (simp add: simulatedBase_def jsub_def)

lemma round1_pos: "1 \<le> v \<Longrightarrow> nonzero_number (round1 (Fin v))"
proof -
  assume "1 \<le> v"
  then have "(1::real) \<le> v * 10 + 1 / 2" by simp
  then have "of_int 1 \<le> v * 10 + 1 / 2" by simp
  then have "1 \<le> \<lfloor>v * 10 + 1 / 2\<rfloor>" by (simp only: le_floor_iff)
  then have "(1::real) \<le> of_int \<lfloor>v * 10 + 1 / 2\<rfloor>" by linarith
  then have "of_int \<lfloor>v * 10 + 1 / 2\<rfloor> / 10 \<noteq> (0::real)" by linarith
  then show ?thesis unfolding round1_Fin nonzero_number.simps .
qed

lemma simulated_nonzero:
  "nonzero_number (num_of (soil_N (getSimulatedSoilNutrients rnd (Fin x) (Fin y))))
   \<and> nonzero_number (num_of (soil_P (getSimulatedSoilNutrients rnd (Fin x) (Fin y))))
   \<and> nonzero_number (num_of (soil_K (getSimulatedSoilNutrients rnd (Fin x) (Fin y))))"
  by (cases rnd)
     (simp add: getSimulatedSoilNutrients_def Let_def clampTo_Fin simulatedBase_Fin rand_def num_of_def
        round1_pos)


lemma nonzero_numberE: "nonzero_number x \<Longrightarrow> (\<And>v. x = Fin v \<Longrightarrow> v \<noteq> 0 \<Longrightarrow> P) \<Longrightarrow> P"
  by (cases x) simp_all

lemma nonneg_numberE: "nonneg_number x \<Longrightarrow> (\<And>v. x = Fin v \<Longrightarrow> 0 \<le> v \<Longrightarrow> P) \<Longrightarrow> P"
  by (cases x) simp_all

lemma jmax_zero_Fin: "nonneg_number (jmax (Fin 0) (Fin v))"
  by (simp add: jmax_def)

lemma finite_numberE: "finite_number x \<Longrightarrow> (\<And>v. x = Fin v \<Longrightarrow> P) \<Longrightarrow> P"
  by (cases x) simp_all

lemma straw_supply_finite:
  "case calculateStrawSupply (Fin sa) t of
     (a, b, c, d) \<Rightarrow> finite_number a \<and> finite_number b \<and> finite_number c \<and> nonneg_number d"
  by (cases t) (simp_all add: calculateStrawSupply_def Let_def)

lemma rice_supply_finite:
  assumes "n \<noteq> 0" "p \<noteq> 0" "k \<noteq> 0"
  shows "case calculateSoilSupply (Fin n) (Fin p) (Fin k) (Fin om) (Fin ph) Rice of
           (a, b, c, i) \<Rightarrow> finite_number a \<and> finite_number b \<and> finite_number c"
  using assms
  by (simp add: calculateSoilSupply_def Let_def riceCorr_def om_impact_N_def om_impact_P_def
        om_impact_K_def organic_matter_impact_def ph_adjustment_def jsub_def)

lemma requirement_finite:
  "case calculateNutrientRequirement (Fin ty) cropType of
     (a, b, c) \<Rightarrow> finite_number a \<and> finite_number b \<and> finite_number c"
  by (simp add: calculateNutrientRequirement_def Let_def)

lemma rice_balance_nonneg:
  assumes "nonzero_number (num_of (soil_N (resolveSoil ctx rnd inp Rice)))"
    and "nonzero_number (num_of (soil_P (resolveSoil ctx rnd inp Rice)))"
    and "nonzero_number (num_of (soil_K (resolveSoil ctx rnd inp Rice)))"
    and "falsy_or (target_yield inp) (Fin 500) = Fin ty"
    and "nullish_or (organic_matter inp) (Fin (207 / 10)) = Fin om"
    and "nullish_or (soil_ph inp) (Fin (818 / 100)) = Fin ph"
    and "nullish_or (straw_return_amount inp) (Fin 600) = Fin sa"
    and "fertilizerFeatures ctx = []"
  shows "nonneg_number (nFertilizer (nutrientBalance ctx rnd inp Rice straw))
       \<and> nonneg_number (pFertilizer (nutrientBalance ctx rnd inp Rice straw))
       \<and> nonneg_number (kFertilizer (nutrientBalance ctx rnd inp Rice straw))
       \<and> nonneg_number (nAdditional (nutrientBalance ctx rnd inp Rice straw))"
proof -
  obtain n where n: "num_of (soil_N (resolveSoil ctx rnd inp Rice)) = Fin n" "n \<noteq> 0"
    using assms(1) by (rule nonzero_numberE)
  obtain p where p: "num_of (soil_P (resolveSoil ctx rnd inp Rice)) = Fin p" "p \<noteq> 0"
    using assms(2) by (rule nonzero_numberE)
  obtain k where k: "num_of (soil_K (resolveSoil ctx rnd inp Rice)) = Fin k" "k \<noteq> 0"
    using assms(3) by (rule nonzero_numberE)
  obtain s1 s2 s3 i where soil_eq:
    "calculateSoilSupply (Fin n) (Fin p) (Fin k) (Fin om) (Fin ph) Rice = (Fin s1, Fin s2, Fin s3, i)"
    using rice_supply_finite[OF n(2) p(2) k(2), of om ph]
    by (cases "calculateSoilSupply (Fin n) (Fin p) (Fin k) (Fin om) (Fin ph) Rice")
       (auto elim!: finite_numberE)
  obtain w1 w2 w3 d where straw:
    "calculateStrawSupply (Fin sa) (case straw of None \<Rightarrow> Wheat | Some t \<Rightarrow> t) = (Fin w1, Fin w2, Fin w3, Fin d)"
    and d: "0 \<le> d"
    using straw_supply_finite[of sa "case straw of None \<Rightarrow> Wheat | Some t \<Rightarrow> t"]
    by (cases "calculateStrawSupply (Fin sa) (case straw of None \<Rightarrow> Wheat | Some t \<Rightarrow> t)")
       (auto elim!: finite_numberE nonneg_numberE)
  obtain r1 r2 r3 where req: "calculateNutrientRequirement (Fin ty) Rice = (Fin r1, Fin r2, Fin r3)"
    using requirement_finite[of ty Rice]
    by (cases "calculateNutrientRequirement (Fin ty) Rice") (auto elim!: finite_numberE)
  have eff: "getFertilizerEfficiency [] x y Rice = (None, None, None)" for x y
    by (simp add: getFertilizerEfficiency_def)
  have none: "nullish_or None v = v" for v
    by (simp add: nullish_or_def)
  have ph: "nullish_or (soil_ph inp) (Fin (409 / 50)) = Fin ph"
    using assms(6) by simp
  show ?thesis
    using d
    by (simp add: nutrientBalance_def Let_def n p k soil_eq straw req eff assms(4,5,7,8) ph
          ph_adjustment_def none jsub_def jmax_zero_Fin)
qed


lemma rice_masses_nonneg:
  assumes "nonzero_number (num_of (soil_N (resolveSoil ctx rnd inp Rice)))"
    and "nonzero_number (num_of (soil_P (resolveSoil ctx rnd inp Rice)))"
    and "nonzero_number (num_of (soil_K (resolveSoil ctx rnd inp Rice)))"
    and "finite_number (falsy_or (target_yield inp) (Fin 500))"
    and "finite_number (nullish_or (organic_matter inp) (Fin (207 / 10)))"
    and "finite_number (nullish_or (soil_ph inp) (Fin (818 / 100)))"
    and "finite_number (nullish_or (straw_return_amount inp) (Fin 600))"
    and "fertilizerFeatures ctx = []"
  shows "list_all nonneg_number
           (masses (amounts (calculateFertilizerRecommendation ctx rt rnd inp Rice straw)))"
proof -
  obtain ty om ph sa where fin:
    "falsy_or (target_yield inp) (Fin 500) = Fin ty"
    "nullish_or (organic_matter inp) (Fin (207 / 10)) = Fin om"
    "nullish_or (soil_ph inp) (Fin (818 / 100)) = Fin ph"
    "nullish_or (straw_return_amount inp) (Fin 600) = Fin sa"
    using assms(4-7) by (auto elim!: finite_numberE)
  have bal: "nonneg_number (nFertilizer (nutrientBalance ctx rnd inp Rice straw))
       \<and> nonneg_number (pFertilizer (nutrientBalance ctx rnd inp Rice straw))
       \<and> nonneg_number (kFertilizer (nutrientBalance ctx rnd inp Rice straw))
       \<and> nonneg_number (nAdditional (nutrientBalance ctx rnd inp Rice straw))"
    by (rule rice_balance_nonneg[OF assms(1-3) fin assms(8)])
  then obtain a p k d where
    "nFertilizer (nutrientBalance ctx rnd inp Rice straw) = Fin a" "0 \<le> a"
    "pFertilizer (nutrientBalance ctx rnd inp Rice straw) = Fin p" "0 \<le> p"
    "kFertilizer (nutrientBalance ctx rnd inp Rice straw) = Fin k" "0 \<le> k"
    "nAdditional (nutrientBalance ctx rnd inp Rice straw) = Fin d" "0 \<le> d"
    by (auto elim!: nonneg_numberE)
  then show ?thesis
    using rice_amounts_nonneg[of "nutrientBalance ctx rnd inp Rice straw" a p k d]
    by (simp add: calculateFertilizerRecommendation_def Let_def)
qed

lemma no_raster_soil:
  assumes "geotiffCache ctx = \<lparr> cache_AN = None, cache_AP = None, cache_AK = None \<rparr>"
    and "lon inp = Some (Fin x)" "x \<noteq> 0" "lat inp = Some (Fin y)" "y \<noteq> 0"
    and "case custom_soil_data inp of None \<Rightarrow> True
         | Some c \<Rightarrow> manual_ok (custom_N c) \<and> manual_ok (custom_P c) \<and> manual_ok (custom_K c)"
  shows "nonzero_number (num_of (soil_N (resolveSoil ctx rnd inp cropType)))
       \<and> nonzero_number (num_of (soil_P (resolveSoil ctx rnd inp cropType)))
       \<and> nonzero_number (num_of (soil_K (resolveSoil ctx rnd inp cropType)))"
proof -
  have base: "applyGeoTIFF (getSoilNutrientsFromGeoTIFF (geotiffCache ctx) (Fin x) (Fin y)) initialBaseData
        = initialBaseData"
    by (simp add: assms(1) applyGeoTIFF_def getSoilNutrientsFromGeoTIFF_def extractValueFromGeoTIFF_def
          geotiffEntry_def Let_def)
  have sim: "applySimulated (getSimulatedSoilNutrients rnd (Fin x) (Fin y)) initialBaseData
        = (getSimulatedSoilNutrients rnd (Fin x) (Fin y))
            \<lparr> nutrient_levels := nutrient_levels (getSimulatedSoilNutrients rnd (Fin x) (Fin y)) \<rparr>"
    by (cases rnd) (simp add: applySimulated_def initialBaseData_def getSimulatedSoilNutrients_def Let_def)
  have soil: "resolveSoil ctx rnd inp cropType =
      applyCustom (custom_soil_data inp)
        ((getSimulatedSoilNutrients rnd (Fin x) (Fin y))
            \<lparr> nutrient_levels := nutrient_levels (getSimulatedSoilNutrients rnd (Fin x) (Fin y)) \<rparr>)"
    using assms(2-5)
    by (simp add: resolveSoil_def Let_def getSoilNutrientsWithCustom_def base sim falsy_or_def jor_def
          truthy_def)
  show ?thesis
    using simulated_nonzero[of rnd x y] assms(6)
    unfolding soil
    by (auto simp add: applyCustom_def Let_def num_of_def split: option.splits)
qed


lemma in_window_finite:
  assumes "inWindow x y"
  shows "\<exists>a b. x = Fin a \<and> a \<noteq> 0 \<and> y = Fin b \<and> b \<noteq> 0"
  using assms by (cases x; cases y) (auto simp add: inWindow_def jge_def)

lemma accepted_yield:
  assumes "\<not> jle v (Fin 0)" "\<not> jgt v (Fin 1000)"
  shows "finite_number (falsy_or (Some v) (Fin 500))"
  using assms by (cases v) (simp_all add: falsy_or_def jor_def truthy_def jgt_def)

lemma accepted_manual:
  assumes "\<not> outside (parseCustom pf v) lo hi" "parseCustom pf v \<noteq> Some (Fin 0)"
  shows "manual_ok (parseCustom pf v)"
proof (cases "parseCustom pf v")
  case None
  then show ?thesis by simp
next
  case (Some x)
  then have "x \<noteq> NaN"
    by (auto simp add: parseCustom_def Let_def split: if_splits)
  then show ?thesis
    using assms Some by (cases x) (simp_all add: outside_def jgt_def)
qed

lemma accepted_masses_nonneg:
  assumes acc: "calculateHandler ctx rt pf rnd (Some d) = Computed r"
    and rasters: "geotiffCache ctx = \<lparr> cache_AN = None, cache_AP = None, cache_AK = None \<rparr>"
    and features: "fertilizerFeatures ctx = []"
    and manual: "\<And>c. body_custom_soil_data d = CustomObject c \<Longrightarrow>
                   parseCustom pf (raw_N c) \<noteq> Some (Fin 0)
                   \<and> parseCustom pf (raw_P c) \<noteq> Some (Fin 0)
                   \<and> parseCustom pf (raw_K c) \<noteq> Some (Fin 0)"
  shows "list_all nonneg_number (masses (amounts r))"
proof -
  define yield where "yield = parseFloat pf (body_yield d)"
  define lonNum where "lonNum = parseFloat pf (body_lon d)"
  define latNum where "latNum = parseFloat pf (body_lat d)"
  define custom where "custom =
     (case body_custom_soil_data d of
        CustomObject c \<Rightarrow>
          \<lparr> custom_N = parseCustom pf (raw_N c), custom_P = parseCustom pf (raw_P c),
            custom_K = parseCustom pf (raw_K c) \<rparr>
      | _ \<Rightarrow> \<lparr> custom_N = None, custom_P = None, custom_K = None \<rparr>)"
  define inp where "inp =
     \<lparr> target_yield = Some yield,
       custom_soil_data = (if truthy_val (body_use_custom_soil d) then Some custom else None),
       use_custom_soil = truthy_val (body_use_custom_soil d),
       lon = Some lonNum,
       lat = Some latNum,
       organic_matter = Some (Fin (207 / 10)),
       soil_ph = Some (Fin (818 / 100)),
       straw_return_amount = Some (if body_crop d = RiceName then Fin 600 else Fin 700),
       sowing_date = body_date d,
       temperature_forecast = Some (if body_crop d = RiceName then Fin (225 / 10) else Fin 12) \<rparr>"
  have checks: "\<not> jle yield (Fin 0)" "\<not> jgt yield (Fin 1000)" "inWindow lonNum latNum"
      "\<not> outside (custom_N custom) 0 300" "\<not> outside (custom_P custom) 0 100"
      "\<not> outside (custom_K custom) 0 500"
    and result: "r = calculateFertilizerRecommendation ctx rt rnd inp
                       (if body_crop d = RiceName then Rice else Wheat)
                       (Some (if body_crop d = RiceName then Wheat else Rice))"
    using acc
    unfolding calculateHandler_def Let_def yield_def lonNum_def latNum_def custom_def inp_def
    by (auto split: if_splits)
  show ?thesis
  proof (cases "body_crop d = RiceName")
    case False
    then show ?thesis
      using result by (simp add: wheat_masses)
  next
    case True
    obtain x y where xy: "lonNum = Fin x" "x \<noteq> 0" "latNum = Fin y" "y \<noteq> 0"
      using in_window_finite[OF checks(3)] by blast
    have ok: "manual_ok (custom_N custom) \<and> manual_ok (custom_P custom) \<and> manual_ok (custom_K custom)"
    proof (cases "body_custom_soil_data d")
      case NoCustom
      then show ?thesis by (simp add: custom_def)
    next
      case (CustomObject c)
      then show ?thesis
        using manual[OF CustomObject] checks(4-6) accepted_manual
        by (simp add: custom_def)
    next
      case CustomPrimitive
      then show ?thesis by (simp add: custom_def)
    qed
    have soil: "nonzero_number (num_of (soil_N (resolveSoil ctx rnd inp Rice)))
       \<and> nonzero_number (num_of (soil_P (resolveSoil ctx rnd inp Rice)))
       \<and> nonzero_number (num_of (soil_K (resolveSoil ctx rnd inp Rice)))"
      using ok
      by (intro no_raster_soil[OF rasters, of inp x y]) (simp_all add: inp_def xy)
    have "list_all nonneg_number
           (masses (amounts (calculateFertilizerRecommendation ctx rt rnd inp Rice (Some Wheat))))"
      using soil accepted_yield[OF checks(1,2)] features
      by (intro rice_masses_nonneg) (simp_all add: inp_def nullish_or_def True)
    then show ?thesis using result True by simp
  qed
qed

lemma wuhan_soil:
  "getSoilNutrientsWithCustom \<lparr> cache_AN = None, cache_AP = None, cache_AK = None \<rparr> (1 / 2, 1 / 2, 1 / 2)
      (Fin (22861 / 200)) (Fin (3824 / 125)) None
   = \<lparr> soil_N = Some (Fin (916 / 10)), soil_P = Some (Fin (244 / 10)), soil_K = Some (Fin (1066 / 10)),
       nutrient_levels = \<lparr> level_AN = High, level_AP = VeryHigh, level_AK = High \<rparr>,
       data_source = \<lparr> source_AN = Simulated, source_AP = Simulated, source_AK = Simulated \<rparr>,
       is_default = True, use_custom = False \<rparr>"
  by (simp add: getSoilNutrientsWithCustom_def getSoilNutrientsFromGeoTIFF_def extractValueFromGeoTIFF_def
        geotiffEntry_def applyGeoTIFF_def applySimulated_def applyCustom_def initialBaseData_def
        getSimulatedSoilNutrients_def simulatedBase_def clampTo_def rand_def getNutrientLevel_def
        Let_def js_eval)

lemma wuhan_ratio:
  "adjustFertilizerRatio example_runtime ''2026-06-17'' Rice (Fin (45 / 2))
     = RiceRatios (Fin (50 / 100)) (Fin (25 / 100)) (Fin (25 / 100))"
  by (simp add: adjustFertilizerRatio_def sowingDaysDiff_def example_runtime_def Let_def js_eval clamp01_unit)

text \<open>
  The request for rice at Wuhan with a target yield of 500, no raster, no feature and the
  three draws at one half: the simulated soil holds 91.6, 24.4 and 106.6 mg/kg, the
  potassium balance is negative, and the potassium masses are zero.
\<close>

lemma wuhan_example:
  "case calculateHandler empty_context example_runtime pf (1 / 2, 1 / 2, 1 / 2) (Some wuhan_body) of
     Computed r \<Rightarrow>
       amounts r = RiceAmounts
         \<lparr> urea_base = Fin (142 / 10), urea_tiller = Fin (43 / 10), urea_panicle = Fin (43 / 10),
           superphosphate_base = Fin (1334 / 10), kcl_base = Fin 0, kcl_panicle = Fin 0 \<rparr>
         \<lparr> N_base = Fin (65 / 10), N_tiller = Fin 2, N_panicle = Fin 2,
           P2O5_total = Fin 16, K2O_total = Fin 0 \<rparr>
   | Rejected reason \<Rightarrow> False"
  by (simp add: calculateHandler_def wuhan_body_def inWindow_def outside_def calculateFertilizerRecommendation_def
        empty_context_def balance_eval wuhan_soil getFertilizerEfficiency_def resolveSowingDate_def
        getSowingDate_def present_def text_or_def defaultSowingDate_def wuhan_ratio riceAmounts_def
        js_eval urea_N_content_def superphosphate_P_content_def potassium_chloride_K_content_def)

text \<open>
  Claim C1, at the input where the code departs from it. The request for rice at
  Wuhan (114.305, 30.592) with a target yield of 500 and a manual nitrogen content of
  0, which is inside the accepted range from 0 to 300, passes the validation, and the
  three urea masses and the three nitrogen masses of the answer are NaN, not
  non-negative numbers.
\<close>

theorem calculateHandler_zero_nitrogen:
  "case calculateHandler empty_context rt pf (1 / 2, 1 / 2, 1 / 2) (Some zero_N_body) of
     Computed r \<Rightarrow>
       (case amounts r of
          RiceAmounts f n \<Rightarrow>
            urea_base f = NaN \<and> urea_tiller f = NaN \<and> urea_panicle f = NaN
            \<and> N_base n = NaN \<and> N_tiller n = NaN \<and> N_panicle n = NaN
        | WheatAmounts f n \<Rightarrow> False)
   | Rejected reason \<Rightarrow> False"
proof -
  define inp where "inp =
       \<lparr> target_yield = Some (Fin 500),
         custom_soil_data = Some \<lparr> custom_N = Some (Fin 0), custom_P = None, custom_K = None \<rparr>,
         use_custom_soil = True,
         lon = Some (Fin (114305 / 1000)),
         lat = Some (Fin (30592 / 1000)),
         organic_matter = Some (Fin (207 / 10)),
         soil_ph = Some (Fin (818 / 100)),
         straw_return_amount = Some (Fin 600),
         sowing_date = None,
         temperature_forecast = Some (Fin (225 / 10)) \<rparr>"
  have soilN: "soil_N (resolveSoil empty_context (1 / 2, 1 / 2, 1 / 2) inp Rice) = Some (Fin 0)"
    by (simp add: inp_def resolveSoil_def Let_def getSoilNutrientsWithCustom_def applyCustom_def)
  have accepted: "calculateHandler empty_context rt pf (1 / 2, 1 / 2, 1 / 2) (Some zero_N_body)
      = Computed (calculateFertilizerRecommendation empty_context rt (1 / 2, 1 / 2, 1 / 2) inp Rice (Some Wheat))"
    by (simp add: calculateHandler_def zero_N_body_def Let_def parseCustom_def outside_def inWindow_def
          js_eval inp_def)
  show ?thesis
    using rice_zero_N_amounts[OF soilN, of rt "Some Wheat"] by (simp add: accepted)
qed

section \<open>The random draws\<close>

text \<open>
  The three draws of \<^verbatim>\<open>Math.random()\<close> are an argument of the model. They reach the
  result only through the simulated soil contents: a call without both coordinates
  does not depend on them.
\<close>

lemma draws_unused_without_coordinates:
  assumes "lon inp = None \<or> lat inp = None"
  shows "calculateFertilizerRecommendation ctx rt rnd inp cropType straw
       = calculateFertilizerRecommendation ctx rt rnd' inp cropType straw"
proof -
  have "resolveSoil ctx rnd inp cropType = resolveSoil ctx rnd' inp cropType"
    using assms by (cases "lon inp"; cases "lat inp") (simp_all add: resolveSoil_def Let_def)
  then have "nutrientBalance ctx rnd inp cropType straw = nutrientBalance ctx rnd' inp cropType straw"
    by (simp add: nutrientBalance_def Let_def)
  then show ?thesis
    by (simp add: calculateFertilizerRecommendation_def Let_def)
qed

end
